theory Spec2Isabelle
  imports Main "HOL-Library.Sublist" "HOL-Library.Multiset"
begin

section \<open>Data model (tables: unnamed/part_001, the module \<open>db/schema\<close>; inputs: server/src/schema.ts)\<close>

text \<open>
  Timestamps (\<open>Date\<close>) are milliseconds since the epoch. A nullable column is an
  \<open>option\<close>. The id columns are \<open>serial\<close> and \<open>integer\<close>, 32-bit signed; the rows hold
  them as integers.
\<close>

type_synonym timestamp = int

text \<open>
  What a handler can raise: \<open>new Error(message)\<close> of its own, an error of the database
  driver, or an error of the file system.
\<close>

datatype db_error = OutOfRange | InvalidSyntax | SequenceLimit

datatype error = Error string | DatabaseError db_error | FileSystemError

record user =
  u_id :: int
  username :: string
  password :: string
  role :: string
  u_created_at :: timestamp
  u_updated_at :: timestamp

record student =
  st_id :: int
  nisn :: string
  name :: string
  st_class :: string
  parent_name :: string
  parent_whatsapp :: string
  st_created_at :: timestamp
  st_updated_at :: timestamp

record violation =
  v_id :: int
  student_id :: int
  violation_type :: string
  location :: string
  description :: "string option"
  photo_url :: "string option"
  violation_time :: timestamp
  reported_by :: int
  whatsapp_sent :: bool
  whatsapp_sent_at :: "timestamp option"
  created_at :: timestamp
  updated_at :: timestamp

text \<open>
  The database handle \<open>db\<close>: the three tables as row lists, and the next value of the
  \<open>serial\<close> sequence behind \<open>violations.id\<close>.
\<close>

record db =
  usersTable :: "user list"
  studentsTable :: "student list"
  violationsTable :: "violation list"
  violations_id_seq :: int

text \<open>
  What the schema declares about a database: \<open>id\<close> is a primary key of each table, and
  \<open>violations.student_id\<close> references \<open>students.id\<close>.
\<close>

definition student_ids :: "db \<Rightarrow> int set" where
  "student_ids s = st_id ` set (studentsTable s)"

definition violation_ids :: "db \<Rightarrow> int set" where
  "violation_ids s = v_id ` set (violationsTable s)"

definition fk_student :: "db \<Rightarrow> bool" where
  "fk_student s = list_all (\<lambda>v. student_id v \<in> st_id ` set (studentsTable s)) (violationsTable s)"

definition pk_violations :: "db \<Rightarrow> bool" where
  "pk_violations s = distinct (map v_id (violationsTable s))"

definition pk_students :: "db \<Rightarrow> bool" where
  "pk_students s = distinct (map st_id (studentsTable s))"

subsection \<open>Numbers that reach a query\<close>

text \<open>
  The inputs declare ids as \<open>z.number()\<close>: any JavaScript number, an integer of any size or
  no integer at all. The driver sends the number as its decimal string and the database
  reads it as a value of the \<open>integer\<close> column it is compared with: a string of digits
  outside the 32-bit signed range is "out of range for type integer", and any other string
  (a fraction, \<open>Infinity\<close>, the exponent notation that JavaScript prints from \<open>1e21\<close> on) is
  "invalid input syntax for type integer". The query then throws.
\<close>

datatype js_number = Integral int | NonIntegral

definition as_int4 :: "js_number \<Rightarrow> db_error + int" where
  "as_int4 n =
     (case n of
        Integral i \<Rightarrow>
          if - 2147483648 \<le> i \<and> i \<le> 2147483647 then Inr i
          else if \<bar>i\<bar> < 1000000000000000000000 then Inl OutOfRange
          else Inl InvalidSyntax
      | NonIntegral \<Rightarrow> Inl InvalidSyntax)"

subsection \<open>Inputs\<close>

record createViolationInput =
  c_student_id :: js_number
  c_violation_type :: string
  c_location :: string
  c_description :: "string option"
  c_photo_url :: "string option"
  c_violation_time :: timestamp
  c_reported_by :: js_number

text \<open>An optional key is an \<open>option\<close>; \<open>None\<close> is \<open>undefined\<close> (key not supplied).\<close>

record updateViolationInput =
  up_id :: js_number
  up_student_id :: "js_number option"
  up_violation_type :: "string option"
  up_location :: "string option"
  up_description :: "string option option"
  up_photo_url :: "string option option"
  up_violation_time :: "timestamp option"
  up_whatsapp_sent :: "bool option"

record getViolationsInput =
  g_student_id :: "js_number option"
  g_limit :: "nat option"
  g_offset :: "nat option"

record sendWhatsAppInput =
  violation_id :: js_number
  phone_number :: string
  message :: string

section \<open>Template literals: numbers as decimal strings\<close>

definition digit :: "nat \<Rightarrow> char" where
  "digit d = ''0123456789'' ! d"

function show_nat :: "nat \<Rightarrow> string" where
  "show_nat n = (if n < 10 then [digit n] else show_nat (n div 10) @ [digit (n mod 10)])"
  by pat_completeness auto
termination
  by (relation "measure (\<lambda>n. n)") auto

declare show_nat.simps [simp del]

definition show_int :: "int \<Rightarrow> string" where
  "show_int i = (if i < 0 then CHR ''-'' # show_nat (nat (- i)) else show_nat (nat i))"

section \<open>Violation handlers (module \<open>handlers/violations\<close>, second part of server/src/handlers/students.ts)\<close>

text \<open>
  \<open>orderBy(desc(violationsTable.violation_time))\<close>. The query names no tie-breaker, so the
  order among rows of equal \<open>violation_time\<close> is the executor's choice, and it may differ
  from one query to the next. Each query therefore takes the executor's ordering as a
  parameter; \<open>orders_by_violation_time_desc\<close> is all that is known of it. A stable sort is one
  such ordering.
\<close>

type_synonym row_order = "violation list \<Rightarrow> violation list"

definition sorted_desc :: "violation list \<Rightarrow> bool" where
  "sorted_desc rows = sorted_wrt (\<lambda>a b. violation_time b \<le> violation_time a) rows"

definition orders_by_violation_time_desc :: "row_order \<Rightarrow> bool" where
  "orders_by_violation_time_desc ord = (\<forall>rows. mset (ord rows) = mset rows \<and> sorted_desc (ord rows))"

definition stable_order :: row_order where
  "stable_order rows = sort_key (\<lambda>v. - violation_time v) rows"

definition getViolations ::
  "row_order \<Rightarrow> db \<Rightarrow> getViolationsInput option \<Rightarrow> error + violation list" where
  "getViolations ord s input =
     (let lim = (case Option.bind input g_limit of None \<Rightarrow> 1000 | Some l \<Rightarrow> l);
          off = (case Option.bind input g_offset of None \<Rightarrow> 0 | Some k \<Rightarrow> k)
      in case Option.bind input g_student_id of
           Some n \<Rightarrow>
             (case as_int4 n of
                Inl e \<Rightarrow> Inl (DatabaseError e)
              | Inr sid \<Rightarrow>
                  Inr (take lim (drop off (ord (filter (\<lambda>v. student_id v = sid)
                                                  (violationsTable s))))))
         | None \<Rightarrow> Inr (take lim (drop off (ord (violationsTable s)))))"

definition getViolationById :: "db \<Rightarrow> js_number \<Rightarrow> error + violation option" where
  "getViolationById s n =
     (case as_int4 n of
        Inl e \<Rightarrow> Inl (DatabaseError e)
      | Inr i \<Rightarrow>
          (case take 1 (filter (\<lambda>v. v_id v = i) (violationsTable s)) of
             [] \<Rightarrow> Inr None
           | r # _ \<Rightarrow> Inr (Some r)))"

text \<open>
  A handler that writes returns its outcome together with the database it leaves behind:
  \<open>Inl\<close> is the exception that escapes the handler, \<open>Inr\<close> the returned value.

  \<open>now\<close> is the clock of the database behind the \<open>defaultNow()\<close> columns of the insert, which
  reads the same for both columns of one statement. The \<open>serial\<close> sequence ends at the
  largest 32-bit integer.
\<close>

definition createViolation ::
  "db \<Rightarrow> timestamp \<Rightarrow> createViolationInput \<Rightarrow> (error + violation) \<times> db" where
  "createViolation s now input =
     (case as_int4 (c_student_id input) of
        Inl e \<Rightarrow> (Inl (DatabaseError e), s)
      | Inr sid \<Rightarrow>
          if take 1 (filter (\<lambda>r. st_id r = sid) (studentsTable s)) = [] then
            (Inl (Error (''Student with ID '' @ show_int sid @ '' not found'')), s)
          else
            (case as_int4 (c_reported_by input) of
               Inl e \<Rightarrow> (Inl (DatabaseError e), s)
             | Inr uid \<Rightarrow>
                 if take 1 (filter (\<lambda>r. u_id r = uid) (usersTable s)) = [] then
                   (Inl (Error (''User with ID '' @ show_int uid @ '' not found'')), s)
                 else if violations_id_seq s > 2147483647 then
                   (Inl (DatabaseError SequenceLimit), s)
                 else
                   let row = \<lparr> v_id = violations_id_seq s,
                               student_id = sid,
                               violation_type = c_violation_type input,
                               location = c_location input,
                               description = c_description input,
                               photo_url = c_photo_url input,
                               violation_time = c_violation_time input,
                               reported_by = uid,
                               whatsapp_sent = False,
                               whatsapp_sent_at = None,
                               created_at = now,
                               updated_at = now \<rparr>
                   in (Inr row, s\<lparr> violationsTable := violationsTable s @ [row],
                                     violations_id_seq := violations_id_seq s + 1 \<rparr>)))"

text \<open>
  The object handed to \<open>set\<close>: a key is present (\<open>Some\<close>) only when it was assigned.
\<close>

record updateData =
  d_updated_at :: "timestamp option"
  d_student_id :: "int option"
  d_violation_type :: "string option"
  d_location :: "string option"
  d_description :: "string option option"
  d_photo_url :: "string option option"
  d_violation_time :: "timestamp option"
  d_whatsapp_sent :: "bool option"
  d_whatsapp_sent_at :: "timestamp option"

definition set_columns :: "updateData \<Rightarrow> violation \<Rightarrow> violation" where
  "set_columns d v =
     v\<lparr> updated_at := (case d_updated_at d of None \<Rightarrow> updated_at v | Some x \<Rightarrow> x),
        student_id := (case d_student_id d of None \<Rightarrow> student_id v | Some x \<Rightarrow> x),
        violation_type := (case d_violation_type d of None \<Rightarrow> violation_type v | Some x \<Rightarrow> x),
        location := (case d_location d of None \<Rightarrow> location v | Some x \<Rightarrow> x),
        description := (case d_description d of None \<Rightarrow> description v | Some x \<Rightarrow> x),
        photo_url := (case d_photo_url d of None \<Rightarrow> photo_url v | Some x \<Rightarrow> x),
        violation_time := (case d_violation_time d of None \<Rightarrow> violation_time v | Some x \<Rightarrow> x),
        whatsapp_sent := (case d_whatsapp_sent d of None \<Rightarrow> whatsapp_sent v | Some x \<Rightarrow> x),
        whatsapp_sent_at :=
          (case d_whatsapp_sent_at d of None \<Rightarrow> whatsapp_sent_at v | Some t \<Rightarrow> Some t) \<rparr>"

text \<open>
  \<open>db.update(violationsTable).set(d).where(eq(violationsTable.id, i))\<close>; with
  \<open>returning()\<close> the updated rows come back, and \<open>result[0]\<close> of no row is \<open>undefined\<close>
  (\<open>None\<close>).
\<close>

definition update_where_id :: "updateData \<Rightarrow> int \<Rightarrow> violation list \<Rightarrow> violation list" where
  "update_where_id d i rows = map (\<lambda>v. if v_id v = i then set_columns d v else v) rows"

text \<open>
  \<open>updateViolation\<close> reads the clock twice: \<open>t_updated\<close> is the \<open>new Date()\<close> of
  \<open>updated_at\<close>, \<open>t_sent\<close> the later \<open>new Date()\<close> of \<open>whatsapp_sent_at\<close>. \<open>student\<close> is the
  supplied \<open>student_id\<close>, which the existence check has found to be a 32-bit integer.
\<close>

definition build_updateData ::
  "timestamp \<Rightarrow> timestamp \<Rightarrow> updateViolationInput \<Rightarrow> int option \<Rightarrow> violation \<Rightarrow> updateData" where
  "build_updateData t_updated t_sent input student existing0 =
     \<lparr> d_updated_at = Some t_updated,
       d_student_id = student,
       d_violation_type = up_violation_type input,
       d_location = up_location input,
       d_description = up_description input,
       d_photo_url = up_photo_url input,
       d_violation_time = up_violation_time input,
       d_whatsapp_sent = up_whatsapp_sent input,
       d_whatsapp_sent_at =
         (case up_whatsapp_sent input of
            None \<Rightarrow> None
          | Some b \<Rightarrow> if b \<and> \<not> whatsapp_sent existing0 then Some t_sent else None) \<rparr>"

text \<open>
  The check of a supplied \<open>student_id\<close>: the select throws for a number that is no 32-bit
  integer, and the handler throws when no student has the id.
\<close>

definition check_student :: "db \<Rightarrow> js_number option \<Rightarrow> error + int option" where
  "check_student s supplied =
     (case supplied of
        None \<Rightarrow> Inr None
      | Some n \<Rightarrow>
          (case as_int4 n of
             Inl e \<Rightarrow> Inl (DatabaseError e)
           | Inr sid \<Rightarrow>
               if take 1 (filter (\<lambda>r. st_id r = sid) (studentsTable s)) = [] then
                 Inl (Error (''Student with ID '' @ show_int sid @ '' not found''))
               else Inr (Some sid)))"

definition updateViolation ::
  "db \<Rightarrow> timestamp \<Rightarrow> timestamp \<Rightarrow> updateViolationInput \<Rightarrow> (error + violation option) \<times> db" where
  "updateViolation s t_updated t_sent input =
     (case as_int4 (up_id input) of
        Inl e \<Rightarrow> (Inl (DatabaseError e), s)
      | Inr i \<Rightarrow>
          (case take 1 (filter (\<lambda>v. v_id v = i) (violationsTable s)) of
             [] \<Rightarrow> (Inl (Error (''Violation with ID '' @ show_int i @ '' not found'')), s)
           | existing0 # _ \<Rightarrow>
               (case check_student s (up_student_id input) of
                  Inl e \<Rightarrow> (Inl e, s)
                | Inr student \<Rightarrow>
                    let d = build_updateData t_updated t_sent input student existing0;
                        rows = update_where_id d i (violationsTable s);
                        result = filter (\<lambda>v. v_id v = i) rows
                    in (Inr (case result of [] \<Rightarrow> None | r # _ \<Rightarrow> Some r),
                        s\<lparr> violationsTable := rows \<rparr>))))"

definition deleteViolation :: "db \<Rightarrow> js_number \<Rightarrow> (error + unit) \<times> db" where
  "deleteViolation s n =
     (case as_int4 n of
        Inl e \<Rightarrow> (Inl (DatabaseError e), s)
      | Inr i \<Rightarrow>
          if take 1 (filter (\<lambda>v. v_id v = i) (violationsTable s)) = [] then
            (Inl (Error (''Violation with ID '' @ show_int i @ '' not found'')), s)
          else (Inr (), s\<lparr> violationsTable := filter (\<lambda>v. v_id v \<noteq> i) (violationsTable s) \<rparr>))"

definition getViolationsByStudent :: "row_order \<Rightarrow> db \<Rightarrow> js_number \<Rightarrow> error + violation list" where
  "getViolationsByStudent ord s studentId =
     (case as_int4 studentId of
        Inl e \<Rightarrow> Inl (DatabaseError e)
      | Inr sid \<Rightarrow>
          if take 1 (filter (\<lambda>r. st_id r = sid) (studentsTable s)) = [] then
            Inl (Error (''Student with ID '' @ show_int sid @ '' not found''))
          else Inr (ord (filter (\<lambda>v. student_id v = sid) (violationsTable s))))"

section \<open>WhatsApp handlers (module \<open>handlers/whatsapp\<close>, unnamed/part_004)\<close>

record sendResult =
  success :: bool
  messageId :: "string option"
  send_error :: "string option"

text \<open>The \<open>catch\<close> of \<open>markWhatsAppSent\<close> rethrows what the update throws.\<close>

definition markWhatsAppSent ::
  "db \<Rightarrow> timestamp \<Rightarrow> js_number \<Rightarrow> string \<Rightarrow> (error + unit) \<times> db" where
  "markWhatsAppSent s now violationId msgId =
     (case as_int4 violationId of
        Inl e \<Rightarrow> (Inl (DatabaseError e), s)
      | Inr i \<Rightarrow>
          let d = \<lparr> d_updated_at = None, d_student_id = None, d_violation_type = None,
                    d_location = None, d_description = None, d_photo_url = None,
                    d_violation_time = None, d_whatsapp_sent = Some True,
                    d_whatsapp_sent_at = Some now \<rparr>
          in (Inr (), s\<lparr> violationsTable := update_where_id d i (violationsTable s) \<rparr>))"

text \<open>
  \<open>t_id\<close> is \<open>Date.now()\<close> and \<open>rnd\<close> is \<open>Math.random().toString(36).substr(2, 9)\<close> at the
  message id; \<open>t_mark\<close> is \<open>new Date()\<close> inside \<open>markWhatsAppSent\<close>. Every exception of the
  body, that of the lookup and that of \<open>markWhatsAppSent\<close>, is caught and turned into the
  returned failure "Failed to send WhatsApp message".
\<close>

definition sendWhatsAppMessage ::
  "db \<Rightarrow> sendWhatsAppInput \<Rightarrow> timestamp \<Rightarrow> string \<Rightarrow> timestamp \<Rightarrow> sendResult \<times> db" where
  "sendWhatsAppMessage s input t_id rnd t_mark =
     (case as_int4 (violation_id input) of
        Inl e \<Rightarrow> (\<lparr> success = False, messageId = None,
                     send_error = Some ''Failed to send WhatsApp message'' \<rparr>, s)
      | Inr i \<Rightarrow>
          (case take 1 (filter (\<lambda>v. v_id v = i) (violationsTable s)) of
             [] \<Rightarrow> (\<lparr> success = False, messageId = None,
                       send_error = Some ''Violation not found'' \<rparr>, s)
           | _ # _ \<Rightarrow>
               let msgId = ''wa_'' @ show_int t_id @ ''_'' @ rnd
               in (case markWhatsAppSent s t_mark (violation_id input) msgId of
                     (Inl e, s') \<Rightarrow> (\<lparr> success = False, messageId = None,
                                       send_error = Some ''Failed to send WhatsApp message'' \<rparr>, s')
                   | (Inr u, s') \<Rightarrow> (\<lparr> success = True, messageId = Some msgId,
                                       send_error = None \<rparr>, s'))))"

section \<open>Student handlers (module \<open>handlers/students\<close>, unnamed/part_002)\<close>

text \<open>
  The \<open>count(*)\<close> of the referencing violations is the length of the filtered table. The
  delete statement runs before \<open>results.length\<close> is inspected.
\<close>

definition deleteStudent :: "db \<Rightarrow> js_number \<Rightarrow> (error + unit) \<times> db" where
  "deleteStudent s n =
     (case as_int4 n of
        Inl e \<Rightarrow> (Inl (DatabaseError e), s)
      | Inr i \<Rightarrow>
          if length (filter (\<lambda>v. student_id v = i) (violationsTable s)) > 0 then
            (Inl (Error ''Cannot delete student with existing violations''), s)
          else
            let results = filter (\<lambda>r. st_id r = i) (studentsTable s);
                s' = s\<lparr> studentsTable := filter (\<lambda>r. st_id r \<noteq> i) (studentsTable s) \<rparr>
            in if length results = 0 then (Inl (Error ''Student not found''), s')
               else (Inr (), s'))"

section \<open>Example data used to run the handlers\<close>

definition db0 :: db where
  "db0 = \<lparr> usersTable = [\<lparr> u_id = 1, username = ''guru'', password = ''x'', role = ''teacher'',
                           u_created_at = 0, u_updated_at = 0 \<rparr>],
           studentsTable = [\<lparr> st_id = 1, nisn = ''1234567890'', name = ''Ahmad Budi'',
                              st_class = ''12 IPA 1'', parent_name = ''Budi'',
                              parent_whatsapp = ''0812'', st_created_at = 0, st_updated_at = 0 \<rparr>],
           violationsTable = [],
           violations_id_seq = 1 \<rparr>"

definition input0 :: createViolationInput where
  "input0 = \<lparr> c_student_id = Integral 1, c_violation_type = ''Terlambat'',
              c_location = ''Gerbang Sekolah'', c_description = None, c_photo_url = None,
              c_violation_time = 50, c_reported_by = Integral 1 \<rparr>"

definition v1 :: violation where
  "v1 = \<lparr> v_id = 1, student_id = 1, violation_type = ''Terlambat'',
          location = ''Gerbang Sekolah'', description = None, photo_url = None,
          violation_time = 50, reported_by = 1, whatsapp_sent = False,
          whatsapp_sent_at = None, created_at = 100, updated_at = 100 \<rparr>"

definition db1 :: db where
  "db1 = db0 \<lparr> violationsTable := [v1], violations_id_seq := 2 \<rparr>"

definition send1 :: sendWhatsAppInput where
  "send1 = \<lparr> violation_id = Integral 1, phone_number = ''0812'', message = ''Halo'' \<rparr>"

definition send7 :: sendWhatsAppInput where
  "send7 = \<lparr> violation_id = Integral 7, phone_number = ''0812'', message = ''Halo'' \<rparr>"

text \<open>A violation id one above the largest 32-bit integer.\<close>

definition send_big :: sendWhatsAppInput where
  "send_big = \<lparr> violation_id = Integral 2147483648, phone_number = ''0812'', message = ''Halo'' \<rparr>"

text \<open>The input \<open>{student_id: X}\<close> of \<open>getViolations\<close>: no limit, no offset.\<close>

definition by_student :: "js_number \<Rightarrow> getViolationsInput option" where
  "by_student X = Some \<lparr> g_student_id = Some X, g_limit = None, g_offset = None \<rparr>"

definition v2 :: violation where
  "v2 = \<lparr> v_id = 2, student_id = 1, violation_type = ''Bolos'',
          location = ''Kantin'', description = Some ''Jam ketiga'', photo_url = None,
          violation_time = 80, reported_by = 1, whatsapp_sent = False,
          whatsapp_sent_at = None, created_at = 110, updated_at = 110 \<rparr>"

definition db2 :: db where
  "db2 = db0 \<lparr> violationsTable := [v1, v2], violations_id_seq := 3 \<rparr>"


definition unmark1 :: updateViolationInput where
  "unmark1 = \<lparr> up_id = Integral 1, up_student_id = None, up_violation_type = None,
               up_location = None, up_description = None, up_photo_url = None,
               up_violation_time = None, up_whatsapp_sent = Some False \<rparr>"



definition v1_sent :: violation where
  "v1_sent = v1\<lparr> whatsapp_sent := True, whatsapp_sent_at := Some 150 \<rparr>"

definition v1_unmarked :: violation where
  "v1_unmarked = v1\<lparr> whatsapp_sent := False, whatsapp_sent_at := Some 150, updated_at := 200 \<rparr>"


section \<open>The partial update, in the words of the specification\<close>


text \<open>
  \<open>partial_update_of t_updated t_sent input v v'\<close>: \<open>v'\<close> is \<open>v\<close> with every supplied field
  replaced by the supplied value, \<open>updated_at\<close> refreshed to the first clock reading, and
  \<open>whatsapp_sent_at\<close> set to the second clock reading when \<open>whatsapp_sent: true\<close> is supplied
  for a violation not yet marked as sent.
\<close>

definition partial_update_of ::
  "timestamp \<Rightarrow> timestamp \<Rightarrow> updateViolationInput \<Rightarrow> violation \<Rightarrow> violation \<Rightarrow> bool" where
  "partial_update_of t_updated t_sent input v v' =
     (v_id v' = v_id v \<and> reported_by v' = reported_by v \<and> created_at v' = created_at v
      \<and> updated_at v' = t_updated
      \<and> (case up_student_id input of
            None \<Rightarrow> student_id v' = student_id v
          | Some n \<Rightarrow> as_int4 n = Inr (student_id v'))
      \<and> violation_type v' = (case up_violation_type input of None \<Rightarrow> violation_type v | Some x \<Rightarrow> x)
      \<and> location v' = (case up_location input of None \<Rightarrow> location v | Some x \<Rightarrow> x)
      \<and> description v' = (case up_description input of None \<Rightarrow> description v | Some x \<Rightarrow> x)
      \<and> photo_url v' = (case up_photo_url input of None \<Rightarrow> photo_url v | Some x \<Rightarrow> x)
      \<and> violation_time v' = (case up_violation_time input of None \<Rightarrow> violation_time v | Some x \<Rightarrow> x)
      \<and> whatsapp_sent v' = (case up_whatsapp_sent input of None \<Rightarrow> whatsapp_sent v | Some b \<Rightarrow> b)
      \<and> whatsapp_sent_at v' =
            (if up_whatsapp_sent input = Some True \<and> \<not> whatsapp_sent v then Some t_sent
             else whatsapp_sent_at v))"

text \<open>
  The invariant of the data model: \<open>whatsapp_sent_at\<close> is non-null exactly when
  \<open>whatsapp_sent\<close> is true.
\<close>

definition sent_at_iff_sent :: "violation \<Rightarrow> bool" where
  "sent_at_iff_sent v = ((whatsapp_sent_at v \<noteq> None) = whatsapp_sent v)"

section \<open>Photo handlers (module \<open>handlers/photos\<close>, second part of server/src/handlers/auth.ts)\<close>

type_synonym byte = nat

definition MAX_FILE_SIZE :: nat where
  "MAX_FILE_SIZE = 5 * 1024 * 1024"

definition ALLOWED_FORMATS :: "string list" where
  "ALLOWED_FORMATS = [''jpeg'', ''jpg'', ''png'', ''gif'']"

subsection \<open>Regular expressions and string functions of the handlers\<close>

text \<open>The class \<open>\w\<close>, and the class \<open>[A-Za-z0-9+/]\<close> in the order of the base64 alphabet.\<close>

definition upper_letters :: string where
  "upper_letters = ''ABCDEFGHIJKLMNOPQRSTUVWXYZ''"

definition lower_letters :: string where
  "lower_letters = ''abcdefghijklmnopqrstuvwxyz''"

definition is_word :: "char \<Rightarrow> bool" where
  "is_word c = (c \<in> set (upper_letters @ lower_letters @ ''0123456789_''))"

definition base64_alphabet :: string where
  "base64_alphabet = upper_letters @ lower_letters @ ''0123456789+/''"

definition is_base64_char :: "char \<Rightarrow> bool" where
  "is_base64_char c = (c \<in> set base64_alphabet)"

text \<open>\<open>String.prototype.toLowerCase\<close> on the letters that \<open>\w\<close> admits.\<close>

definition toLowerCase :: "string \<Rightarrow> string" where
  "toLowerCase s =
     map (\<lambda>c. case map_of (zip upper_letters lower_letters) c of None \<Rightarrow> c | Some l \<Rightarrow> l) s"

text \<open>\<open>String.prototype.includes\<close>\<close>

definition includes_str :: "string \<Rightarrow> string \<Rightarrow> bool" where
  "includes_str s part = sublist part s"

text \<open>
  \<open>fileData.match(/^data:image\/(\w+);base64,/)\<close>: the capture group and the rest of the
  string after the match, which is what \<open>fileData.replace(/^data:image\/\w+;base64,/, '')\<close>
  leaves. The greedy \<open>\w+\<close> can only end where the word characters end, since \<open>;\<close> is none.
\<close>

definition match_data_url :: "string \<Rightarrow> (string \<times> string) option" where
  "match_data_url fileData =
     (if prefix ''data:image/'' fileData then
        let r = drop 11 fileData;
            w = takeWhile is_word r;
            t = dropWhile is_word r
        in if w \<noteq> [] \<and> prefix '';base64,'' t then Some (w, drop 8 t) else None
      else None)"

text \<open>\<open>/^[A-Za-z0-9+/]*={0,2}$/.test(base64Data)\<close>\<close>

definition test_base64 :: "string \<Rightarrow> bool" where
  "test_base64 base64Data =
     (let t = dropWhile is_base64_char base64Data in t = [] \<or> t = ''='' \<or> t = ''=='')"

text \<open>
  \<open>Buffer.from(base64Data, 'base64')\<close>, for the strings the handlers decode: characters of
  the alphabet followed by padding. Four characters give three bytes, a rest of three gives
  two, a rest of two gives one, and a single left-over character gives none.
\<close>

fun index_of :: "'a \<Rightarrow> 'a list \<Rightarrow> nat" where
  "index_of c [] = 0"
| "index_of c (x # xs) = (if c = x then 0 else Suc (index_of c xs))"

fun decode_sextets :: "nat list \<Rightarrow> byte list" where
  "decode_sextets (a # b # c # d # rest) =
     (a * 4 + b div 16) # ((b mod 16) * 16 + c div 4) # ((c mod 4) * 64 + d) # decode_sextets rest"
| "decode_sextets [a, b, c] = [a * 4 + b div 16, (b mod 16) * 16 + c div 4]"
| "decode_sextets [a, b] = [a * 4 + b div 16]"
| "decode_sextets [a] = []"
| "decode_sextets [] = []"

definition Buffer_from_base64 :: "string \<Rightarrow> byte list" where
  "Buffer_from_base64 base64Data =
     decode_sextets (map (\<lambda>c. index_of c base64_alphabet) (takeWhile is_base64_char base64Data))"

text \<open>
  \<open>buffer.slice(0, 6).toString('ascii')\<close>: decoding as \<open>ascii\<close> clears the highest bit of
  each byte.
\<close>

definition toString_ascii :: "byte list \<Rightarrow> string" where
  "toString_ascii bytes = map (\<lambda>b. char_of (b mod 128)) bytes"

subsection \<open>validatePhotoFormat\<close>

record validation =
  valid :: bool
  format :: "string option"
  val_error :: "string option"

text \<open>Indexing a \<open>Buffer\<close> past its end gives \<open>undefined\<close>, which equals no byte.\<close>

definition byte_at :: "byte list \<Rightarrow> nat \<Rightarrow> byte option" where
  "byte_at buffer i = (if i < length buffer then Some (buffer ! i) else None)"

definition validateImageHeader :: "byte list \<Rightarrow> string \<Rightarrow> bool" where
  "validateImageHeader buffer fmt =
     (if length buffer < 8 then False
      else let f = toLowerCase fmt in
        if f = ''jpeg'' \<or> f = ''jpg'' then
          byte_at buffer 0 = Some 0xFF \<and> byte_at buffer 1 = Some 0xD8 \<and> byte_at buffer 2 = Some 0xFF
        else if f = ''png'' then
          byte_at buffer 0 = Some 0x89 \<and> byte_at buffer 1 = Some 0x50 \<and>
          byte_at buffer 2 = Some 0x4E \<and> byte_at buffer 3 = Some 0x47 \<and>
          byte_at buffer 4 = Some 0x0D \<and> byte_at buffer 5 = Some 0x0A \<and>
          byte_at buffer 6 = Some 0x1A \<and> byte_at buffer 7 = Some 0x0A
        else if f = ''gif'' then
          (let header = toString_ascii (take 6 buffer)
           in header = ''GIF87a'' \<or> header = ''GIF89a'')
        else False)"

text \<open>
  No step of the body throws, so the \<open>catch\<close> ("Validation error occurred") is never
  entered. \<open>MAX_FILE_SIZE / (1024 * 1024)\<close> prints as \<open>5\<close>.
\<close>

definition validatePhotoFormat :: "string \<Rightarrow> validation" where
  "validatePhotoFormat fileData =
     (case match_data_url fileData of
        None \<Rightarrow> \<lparr> valid = False, format = None,
                  val_error = Some ''Invalid base64 image data format'' \<rparr>
      | Some (group1, base64Data) \<Rightarrow>
          let fmt = toLowerCase group1 in
          if fmt \<notin> set ALLOWED_FORMATS then
            \<lparr> valid = False, format = None,
              val_error = Some (''Unsupported image format: '' @ fmt
                                @ ''. Allowed formats: jpeg, jpg, png, gif'') \<rparr>
          else if base64Data \<noteq> [] \<and> \<not> test_base64 base64Data then
            \<lparr> valid = False, format = None, val_error = Some ''Invalid base64 encoding'' \<rparr>
          else
            let buffer = Buffer_from_base64 base64Data in
            if length buffer > MAX_FILE_SIZE then
              \<lparr> valid = False, format = None,
                val_error = Some (''File size exceeds maximum limit of ''
                                  @ show_nat (MAX_FILE_SIZE div (1024 * 1024)) @ ''MB'') \<rparr>
            else if \<not> validateImageHeader buffer fmt then
              \<lparr> valid = False, format = None,
                val_error = Some ''File does not appear to be a valid image'' \<rparr>
            else \<lparr> valid = True, format = Some fmt, val_error = None \<rparr>)"

subsection \<open>The classification of \<open>validatePhotoFormat\<close>, in the words of the specification\<close>

text \<open>
  \<open>is_data_url s fmt payload\<close>: \<open>s\<close> has the form \<open>data:image/<fmt>;base64,<payload>\<close> with a
  non-empty \<open>fmt\<close> of word characters. \<open>is_base64_text\<close>: characters of the base64 alphabet
  followed by at most two \<open>=\<close>. \<open>has_signature\<close>: the bytes start with the magic signature
  of the format.
\<close>

definition is_data_url :: "string \<Rightarrow> string \<Rightarrow> string \<Rightarrow> bool" where
  "is_data_url s fmt payload =
     (s = ''data:image/'' @ fmt @ '';base64,'' @ payload \<and> fmt \<noteq> [] \<and> list_all is_word fmt)"

definition is_base64_text :: "string \<Rightarrow> bool" where
  "is_base64_text payload =
     (\<exists>body pad. payload = body @ pad \<and> list_all is_base64_char body
                 \<and> (pad = [] \<or> pad = ''='' \<or> pad = ''==''))"

definition has_signature :: "string \<Rightarrow> byte list \<Rightarrow> bool" where
  "has_signature fmt bytes =
     (if fmt = ''jpeg'' \<or> fmt = ''jpg'' then prefix [0xFF, 0xD8, 0xFF] bytes
      else if fmt = ''png'' then prefix [0x89, 0x50, 0x4E, 0x47, 0x0D, 0x0A, 0x1A, 0x0A] bytes
      else if fmt = ''gif'' then
        toString_ascii (take 6 bytes) = ''GIF87a'' \<or> toString_ascii (take 6 bytes) = ''GIF89a''
      else False)"

subsection \<open>The file system\<close>

text \<open>
  Files and directories by their normalised path relative to the working directory, a list
  of components; a path of \<open>..\<close> components only is the working directory or one of its
  ancestors, which exist. Permissions and links are not modelled.
\<close>

datatype node = Directory | Regular "byte list"

record fs =
  nodes :: "string list \<Rightarrow> node option"

definition UPLOAD_DIR :: string where
  "UPLOAD_DIR = ''uploads/photos''"

text \<open>
  \<open>path.join\<close> on POSIX paths: the non-empty arguments are joined with \<open>/\<close>, empty and \<open>.\<close>
  components are dropped, \<open>..\<close> removes the component before it or, where there is none,
  stays; a trailing \<open>/\<close> is kept. The backslash is an ordinary character.
\<close>

fun split_on :: "char \<Rightarrow> string \<Rightarrow> string \<Rightarrow> string list" where
  "split_on c acc [] = [rev acc]"
| "split_on c acc (x # xs) =
     (if x = c then rev acc # split_on c [] xs else split_on c (x # acc) xs)"

fun resolve :: "string list \<Rightarrow> string list \<Rightarrow> string list" where
  "resolve stack [] = stack"
| "resolve stack (c # cs) =
     (if c = [] \<or> c = ''.'' then resolve stack cs
      else if c = ''..'' then
        (if stack = [] \<or> last stack = ''..'' then resolve (stack @ [''..'']) cs
         else resolve (butlast stack) cs)
      else resolve (stack @ [c]) cs)"

record path =
  parts :: "string list"
  trailing_slash :: bool

definition normalize_path :: "string \<Rightarrow> path" where
  "normalize_path p =
     \<lparr> parts = resolve [] (split_on CHR ''/'' [] p),
       trailing_slash = (p \<noteq> [] \<and> last p = CHR ''/'') \<rparr>"

definition path_join :: "string \<Rightarrow> string \<Rightarrow> path" where
  "path_join a b = normalize_path (if b = [] then a else if a = [] then b else a @ ''/'' @ b)"

definition is_directory :: "fs \<Rightarrow> string list \<Rightarrow> bool" where
  "is_directory s ps = (list_all (\<lambda>c. c = ''..'') ps \<or> nodes s ps = Some Directory)"

definition existsSync :: "fs \<Rightarrow> path \<Rightarrow> bool" where
  "existsSync s p =
     (if trailing_slash p then is_directory s (parts p)
      else is_directory s (parts p) \<or> nodes s (parts p) \<noteq> None)"

text \<open>
  \<open>mkdir(dir, {recursive: true})\<close> creates the missing directories along the path and raises
  when a regular file is in the way.
\<close>

fun mkdir_recursive :: "fs \<Rightarrow> string list \<Rightarrow> string list \<Rightarrow> error + fs" where
  "mkdir_recursive s made [] = Inr s"
| "mkdir_recursive s made (c # cs) =
     (case nodes s (made @ [c]) of
        Some (Regular b) \<Rightarrow> Inl FileSystemError
      | Some Directory \<Rightarrow> mkdir_recursive s (made @ [c]) cs
      | None \<Rightarrow> mkdir_recursive (s\<lparr> nodes := (nodes s)(made @ [c] \<mapsto> Directory) \<rparr>) (made @ [c]) cs)"

definition ensureUploadDir :: "fs \<Rightarrow> error + fs" where
  "ensureUploadDir s =
     (if \<not> existsSync s (normalize_path UPLOAD_DIR)
      then mkdir_recursive s [] (parts (normalize_path UPLOAD_DIR))
      else Inr s)"

text \<open>
  Reading or unlinking raises unless the path is a regular file. Writing creates or
  replaces a regular file in an existing directory and raises otherwise.
\<close>

definition readFile :: "fs \<Rightarrow> path \<Rightarrow> error + byte list" where
  "readFile s p =
     (if trailing_slash p \<or> is_directory s (parts p) then Inl FileSystemError
      else case nodes s (parts p) of Some (Regular b) \<Rightarrow> Inr b | _ \<Rightarrow> Inl FileSystemError)"

definition unlink :: "fs \<Rightarrow> path \<Rightarrow> error + fs" where
  "unlink s p =
     (if trailing_slash p \<or> is_directory s (parts p) then Inl FileSystemError
      else case nodes s (parts p) of
             Some (Regular b) \<Rightarrow> Inr (s\<lparr> nodes := (nodes s)(parts p := None) \<rparr>)
           | _ \<Rightarrow> Inl FileSystemError)"

definition writeFile :: "fs \<Rightarrow> path \<Rightarrow> byte list \<Rightarrow> error + fs" where
  "writeFile s p buffer =
     (if trailing_slash p \<or> is_directory s (parts p) then Inl FileSystemError
      else if is_directory s (butlast (parts p)) then
        Inr (s\<lparr> nodes := (nodes s)(parts p \<mapsto> Regular buffer) \<rparr>)
      else Inl FileSystemError)"

subsection \<open>uploadPhoto, getPhoto, deletePhoto\<close>

record uploadPhotoInput =
  file_data :: string
  file_name :: string

record uploadResult =
  url :: string
  fileName :: string

text \<open>\<open>x || d\<close> on an optional string: \<open>undefined\<close> and the empty string give \<open>d\<close>.\<close>

definition or_default :: "string option \<Rightarrow> string \<Rightarrow> string" where
  "or_default x d = (case x of None \<Rightarrow> d | Some v \<Rightarrow> if v = [] then d else v)"

definition replace_data_url_prefix :: "string \<Rightarrow> string" where
  "replace_data_url_prefix fileData =
     (case match_data_url fileData of None \<Rightarrow> fileData | Some (_, rest) \<Rightarrow> rest)"

text \<open>\<open>now\<close> is \<open>Date.now()\<close>. The \<open>catch\<close> rethrows.\<close>

definition uploadPhoto :: "fs \<Rightarrow> timestamp \<Rightarrow> uploadPhotoInput \<Rightarrow> (error + uploadResult) \<times> fs" where
  "uploadPhoto s now input =
     (let validation = validatePhotoFormat (file_data input) in
      if \<not> valid validation then
        (Inl (Error (or_default (val_error validation) ''Invalid photo format'')), s)
      else
        (case ensureUploadDir s of
           Inl e \<Rightarrow> (Inl e, s)
         | Inr s1 \<Rightarrow>
             let base64Data = replace_data_url_prefix (file_data input);
                 buffer = Buffer_from_base64 base64Data
             in if length buffer > MAX_FILE_SIZE then
                  (Inl (Error (''File size exceeds maximum limit of ''
                               @ show_nat (MAX_FILE_SIZE div (1024 * 1024)) @ ''MB'')), s1)
                else
                  let fileExtension = or_default (format validation) ''jpg'';
                      fname = show_int now @ ''_'' @ file_name input @ ''.'' @ fileExtension;
                      filePath = path_join UPLOAD_DIR fname
                  in (case writeFile s1 filePath buffer of
                        Inl e \<Rightarrow> (Inl e, s1)
                      | Inr s2 \<Rightarrow>
                          (Inr \<lparr> url = ''/uploads/photos/'' @ fname, fileName = fname \<rparr>, s2))))"

definition invalid_filename :: "string \<Rightarrow> bool" where
  "invalid_filename fname =
     (includes_str fname ''..'' \<or> includes_str fname ''/'' \<or> includes_str fname [CHR 0x5C])"

text \<open>The body of the \<open>try\<close> of \<open>getPhoto\<close>; its \<open>catch\<close> turns every exception into \<open>null\<close>.\<close>

definition getPhoto_try :: "fs \<Rightarrow> string \<Rightarrow> error + byte list option" where
  "getPhoto_try s fname =
     (if invalid_filename fname then Inl (Error ''Invalid filename'')
      else let filePath = path_join UPLOAD_DIR fname in
        if \<not> existsSync s filePath then Inr None
        else (case readFile s filePath of Inl e \<Rightarrow> Inl e | Inr buffer \<Rightarrow> Inr (Some buffer)))"

definition getPhoto :: "fs \<Rightarrow> string \<Rightarrow> byte list option" where
  "getPhoto s fname = (case getPhoto_try s fname of Inl e \<Rightarrow> None | Inr r \<Rightarrow> r)"

text \<open>
  \<open>deletePhoto\<close> validates outside its \<open>try\<close>; the \<open>catch\<close> swallows what \<open>unlink\<close> raises.
\<close>

definition deletePhoto :: "fs \<Rightarrow> string \<Rightarrow> (error + unit) \<times> fs" where
  "deletePhoto s fname =
     (if invalid_filename fname then (Inl (Error ''Invalid filename''), s)
      else let filePath = path_join UPLOAD_DIR fname in
        if existsSync s filePath then
          (case unlink s filePath of Inl e \<Rightarrow> (Inr (), s) | Inr s' \<Rightarrow> (Inr (), s'))
        else (Inr (), s))"

text \<open>The regular file, if any, that a file name denotes inside the upload directory.\<close>

definition files :: "fs \<Rightarrow> string \<Rightarrow> byte list option" where
  "files s fname =
     (case nodes s (parts (path_join UPLOAD_DIR fname)) of Some (Regular b) \<Rightarrow> Some b | _ \<Rightarrow> None)"

text \<open>An empty file system and a small JPEG: ten bytes, starting \<open>FF D8 FF\<close>.\<close>

definition fs0 :: fs where
  "fs0 = \<lparr> nodes = (\<lambda>p. None) \<rparr>"

definition jpeg_data :: string where
  "jpeg_data = ''data:image/jpeg;base64,/9j/4AAQSkZJRg==''"

definition jpeg_bytes :: "byte list" where
  "jpeg_bytes = [255, 216, 255, 224, 0, 16, 74, 70, 73, 70]"

definition testInput :: uploadPhotoInput where
  "testInput = \<lparr> file_data = jpeg_data, file_name = ''test_photo'' \<rparr>"

definition fs1 :: fs where
  "fs1 = \<lparr> nodes = (\<lambda>p. None)
             ([''uploads''] \<mapsto> Directory,
              [''uploads'', ''photos''] \<mapsto> Directory,
              [''uploads'', ''photos'', ''1700000000000_test_photo.jpeg''] \<mapsto> Regular jpeg_bytes) \<rparr>"

section \<open>generateViolationMessage (module \<open>handlers/whatsapp\<close>, unnamed/part_004)\<close>

text \<open>A JavaScript string is truthy when it is neither \<open>null\<close> nor empty.\<close>

definition truthy :: "string option \<Rightarrow> bool" where
  "truthy x = (case x of None \<Rightarrow> False | Some t \<Rightarrow> t \<noteq> [])"

text \<open>
  The template. \<open>df\<close> and \<open>tf\<close> are the two formatters of the runtime,
  \<open>Intl.DateTimeFormat('id-ID', {weekday: 'long', year: 'numeric', month: 'long', day:
  'numeric'})\<close> and \<open>Intl.DateTimeFormat('id-ID', {hour: '2-digit', minute: '2-digit'})\<close>.
\<close>

definition violation_message ::
  "(timestamp \<Rightarrow> string) \<Rightarrow> (timestamp \<Rightarrow> string) \<Rightarrow> violation \<Rightarrow> student \<Rightarrow> string" where
  "violation_message df tf v st =
     (let violationDate = df (violation_time v);
          violationTime = tf (violation_time v);
          message0 =
            ''Assalamu'alaikum Bapak/Ibu,\<newline>\<newline>Kami dari pihak sekolah ingin memberitahukan bahwa anak Bapak/Ibu:\<newline>\<newline>Nama: ''
            @ name st
            @ ''\<newline>Kelas: '' @ st_class st
            @ ''\<newline>NISN: '' @ nisn st
            @ ''\<newline>\<newline>Telah melakukan pelanggaran pada:\<newline>Hari/Tanggal: '' @ violationDate
            @ ''\<newline>Waktu: '' @ violationTime
            @ ''\<newline>Jenis Pelanggaran: '' @ violation_type v
            @ ''\<newline>Lokasi: '' @ location v;
          message1 =
            (if truthy (description v)
             then message0 @ ''\<newline>Keterangan: '' @ the (description v) else message0);
          message2 =
            (if truthy (photo_url v)
             then message1 @ ''\<newline>\<newline>Bukti foto: '' @ the (photo_url v) else message1)
      in message2
           @ ''\<newline>\<newline>Mohon untuk memberikan pembinaan kepada anak Bapak/Ibu di rumah.\<newline>\<newline>Terima kasih atas perhatiannya.\<newline>\<newline>Hormat kami,\<newline>Sekolah'')"

text \<open>
  The inner join of violations and students on \<open>student_id\<close>, restricted to the violation
  id, \<open>limit(1)\<close>.
\<close>

definition generateViolationMessage ::
  "(timestamp \<Rightarrow> string) \<Rightarrow> (timestamp \<Rightarrow> string) \<Rightarrow> db \<Rightarrow> int \<Rightarrow> error + string" where
  "generateViolationMessage df tf s violationId =
     (case take 1 (concat (map (\<lambda>v. map (\<lambda>st. (v, st))
                                        (filter (\<lambda>st. student_id v = st_id st) (studentsTable s)))
                              (filter (\<lambda>v. v_id v = violationId) (violationsTable s)))) of
        [] \<Rightarrow> Inl (Error ''Violation not found'')
      | (v, st) # _ \<Rightarrow> Inr (violation_message df tf v st))"

text \<open>
  The texts the template interpolates besides the two optional ones, and an optional text
  as it may appear in the message.
\<close>

definition interpolated ::
  "(timestamp \<Rightarrow> string) \<Rightarrow> (timestamp \<Rightarrow> string) \<Rightarrow> violation \<Rightarrow> student \<Rightarrow> string list" where
  "interpolated df tf v st =
     [name st, st_class st, nisn st, df (violation_time v), tf (violation_time v),
      violation_type v, location v]"

definition optional_text :: "string option \<Rightarrow> string" where
  "optional_text x = (case x of None \<Rightarrow> [] | Some t \<Rightarrow> t)"

text \<open>Formatters that always print the same day and time, and a violation whose location
  reads like a description line.\<close>

definition df0 :: "timestamp \<Rightarrow> string" where
  "df0 t = ''Senin, 15 Januari 2024''"

definition tf0 :: "timestamp \<Rightarrow> string" where
  "tf0 t = ''07.30''"

definition v3 :: violation where
  "v3 = \<lparr> v_id = 3, student_id = 1, violation_type = ''Terlambat'',
          location = ''Keterangan: gerbang'', description = None, photo_url = None,
          violation_time = 90, reported_by = 1, whatsapp_sent = False,
          whatsapp_sent_at = None, created_at = 120, updated_at = 120 \<rparr>"

definition v4 :: violation where
  "v4 = \<lparr> v_id = 4, student_id = 1, violation_type = ''Bolos'',
          location = ''Kantin'', description = Some ''Jam ketiga'',
          photo_url = Some ''/uploads/photos/1_a.jpeg'',
          violation_time = 95, reported_by = 1, whatsapp_sent = False,
          whatsapp_sent_at = None, created_at = 130, updated_at = 130 \<rparr>"

definition db3 :: db where
  "db3 = db0 \<lparr> violationsTable := [v1, v3, v4], violations_id_seq := 5 \<rparr>"

definition st1 :: student where
  "st1 = \<lparr> st_id = 1, nisn = ''1234567890'', name = ''Ahmad Budi'',
           st_class = ''12 IPA 1'', parent_name = ''Budi'',
           parent_whatsapp = ''0812'', st_created_at = 0, st_updated_at = 0 \<rparr>"

text \<open>A student with \<open>n\<close> violations, ids \<open>1\<close> to \<open>n\<close>.\<close>

primrec many_violations :: "nat \<Rightarrow> violation list" where
  "many_violations 0 = []"
| "many_violations (Suc n) = v1\<lparr> v_id := int (Suc n), violation_time := int n \<rparr> # many_violations n"

definition db_many :: db where
  "db_many = db0 \<lparr> violationsTable := many_violations 1001, violations_id_seq := 1002 \<rparr>"

section \<open>Verified properties\<close>

subsection \<open>Numbers that reach a query\<close>

lemma as_int4_Inr: "as_int4 n = Inr i \<Longrightarrow> n = Integral i"
  by (cases n) (auto simp: as_int4_def split: if_splits)

lemma as_int4_1: "as_int4 (Integral 1) = Inr 1"
  by (simp add: as_int4_def)



lemma as_int4_7: "as_int4 (Integral 7) = Inr 7"
  by (simp add: as_int4_def)


lemma as_int4_999: "as_int4 (Integral 999) = Inr 999"
  by (simp add: as_int4_def)

lemma as_int4_big: "as_int4 (Integral 2147483648) = Inl OutOfRange"
  by (simp add: as_int4_def)

lemma as_int4_fraction: "as_int4 NonIntegral = Inl InvalidSyntax"
  by (simp add: as_int4_def)

subsection \<open>Rows touched by an update\<close>

lemma update_where_id_absent:
  "i \<notin> v_id ` set rows \<Longrightarrow> update_where_id d i rows = rows"
  by (induction rows) (auto simp: update_where_id_def)

lemma violation_lookup_empty_iff:
  "(filter (\<lambda>v. v_id v = i) (violationsTable s) = []) = (i \<notin> violation_ids s)"
  by (auto simp: filter_empty_conv violation_ids_def)

lemma v_id_set_columns [simp]: "v_id (set_columns d v) = v_id v"
  by (simp add: set_columns_def)

lemma violation_ids_update_where_id:
  "v_id ` set (update_where_id d i rows) = v_id ` set rows"
  by (induction rows) (simp_all add: update_where_id_def)

lemma update_where_id_hit:
  "v \<in> set (update_where_id d i rows) \<Longrightarrow> v_id v = i \<Longrightarrow>
     \<exists>u \<in> set rows. v_id u = i \<and> v = set_columns d u"
  unfolding update_where_id_def by (induction rows) (auto split: if_splits)



lemma length_update_where_id [simp]: "length (update_where_id d i rows) = length rows"
  by (simp add: update_where_id_def)

lemma filter_key_unique:
  "distinct (map f xs) \<Longrightarrow> x \<in> set xs \<Longrightarrow> filter (\<lambda>y. f y = f x) xs = [x]"
proof (induction xs)
  case Nil
  then show ?case by simp
next
  case (Cons a xs)
  show ?case
  proof (cases "a = x")
    case True
    with Cons.prems have "f x \<notin> f ` set xs" by simp
    have "\<forall>y \<in> set xs. f y \<noteq> f x"
    proof
      fix y
      assume "y \<in> set xs"
      then have "f y \<in> f ` set xs" by simp
      with \<open>f x \<notin> f ` set xs\<close> show "f y \<noteq> f x" by auto
    qed
    then have "filter (\<lambda>y. f y = f x) xs = []"
      by (simp add: filter_empty_conv)
    with True show ?thesis by simp
  next
    case False
    with Cons.prems have "x \<in> set xs" "f a \<noteq> f x" by auto
    with Cons show ?thesis by simp
  qed
qed

subsection \<open>The example database\<close>

lemma create_db0: "createViolation db0 100 input0 = (Inr v1, db1)"
  by (simp add: createViolation_def as_int4_def db0_def input0_def v1_def db1_def Let_def)

lemma ids_db1: "violation_ids db1 = {1}"
  by (simp add: violation_ids_def db1_def db0_def v1_def)

lemma show_int_300: "show_int 300 = ''300''"
  by (simp add: show_int_def show_nat.simps digit_def)

subsection \<open>markWhatsAppSent\<close>

text \<open>The columns that \<open>markWhatsAppSent\<close> sets.\<close>

lemma set_columns_mark:
  "set_columns \<lparr> d_updated_at = None, d_student_id = None, d_violation_type = None,
                 d_location = None, d_description = None, d_photo_url = None,
                 d_violation_time = None, d_whatsapp_sent = Some True,
                 d_whatsapp_sent_at = Some now \<rparr> v =
     v\<lparr> whatsapp_sent := True, whatsapp_sent_at := Some now \<rparr>"
  by (simp add: set_columns_def)

lemma markWhatsAppSent_in_range:
  assumes "as_int4 n = Inr i"
  shows "markWhatsAppSent s now n m =
           (Inr (), s\<lparr> violationsTable :=
                         map (\<lambda>v. if v_id v = i
                                   then v\<lparr> whatsapp_sent := True, whatsapp_sent_at := Some now \<rparr>
                                   else v) (violationsTable s) \<rparr>)"
  using assms
  by (simp add: markWhatsAppSent_def update_where_id_def set_columns_mark Let_def)

lemma map_mark_absent:
  "i \<notin> v_id ` set rows \<Longrightarrow>
     map (\<lambda>v. if v_id v = i then f v else v) rows = rows"
  by (induction rows) auto

text \<open>
  C10, as stated, fails: for a violation id that no stored violation has but that is not a
  32-bit integer the update throws, and \<open>markWhatsAppSent\<close> rethrows the database error.
\<close>

theorem markWhatsAppSent_out_of_range_counterexample:
  "2147483648 \<notin> violation_ids db1
   \<and> markWhatsAppSent db1 200 (Integral 2147483648) ''wa_1'' =
        (Inl (DatabaseError OutOfRange), db1)"
  by (simp add: ids_db1 markWhatsAppSent_def as_int4_def)

text \<open>
  C10, amended. For a violation id that is a 32-bit integer and that no stored violation
  has, and any message id, \<open>markWhatsAppSent\<close> returns normally (no error is raised) and the
  whole database, so every stored violation, is unchanged: unlike \<open>updateViolation\<close> it
  signals no "not found". For a number that is not a 32-bit integer it raises the error of
  the database and changes nothing.
\<close>

theorem markWhatsAppSent_missing_id:
  "(as_int4 violationId = Inr i \<and> i \<notin> violation_ids s \<longrightarrow>
      markWhatsAppSent s now violationId msgId = (Inr (), s))
   \<and> (as_int4 violationId = Inl e \<longrightarrow>
      markWhatsAppSent s now violationId msgId = (Inl (DatabaseError e), s))"
proof (intro conjI impI)
  assume a: "as_int4 violationId = Inr i \<and> i \<notin> violation_ids s"
  then have "map (\<lambda>v. if v_id v = i
                        then v\<lparr> whatsapp_sent := True, whatsapp_sent_at := Some now \<rparr>
                        else v) (violationsTable s) = violationsTable s"
    by (simp add: map_mark_absent violation_ids_def)
  with a show "markWhatsAppSent s now violationId msgId = (Inr (), s)"
    by (simp add: markWhatsAppSent_in_range)
next
  assume "as_int4 violationId = Inl e"
  then show "markWhatsAppSent s now violationId msgId = (Inl (DatabaseError e), s)"
    by (simp add: markWhatsAppSent_def)
qed

theorem markWhatsAppSent_missing_id_witness:
  "as_int4 (Integral 7) = Inr 7 \<and> 7 \<notin> violation_ids db1
   \<and> markWhatsAppSent db1 200 (Integral 7) ''wa_1'' = (Inr (), db1)
   \<and> as_int4 NonIntegral = Inl InvalidSyntax
   \<and> markWhatsAppSent db1 200 NonIntegral ''wa_1'' = (Inl (DatabaseError InvalidSyntax), db1)"
proof -
  have a: "as_int4 (Integral 7) = Inr 7 \<and> 7 \<notin> violation_ids db1"
    by (simp add: as_int4_7 ids_db1)
  with markWhatsAppSent_missing_id [of "Integral 7" 7 db1 200 "''wa_1''"]
  have b: "markWhatsAppSent db1 200 (Integral 7) ''wa_1'' = (Inr (), db1)"
    by blast
  from as_int4_fraction markWhatsAppSent_missing_id [of NonIntegral _ db1 200 "''wa_1''" InvalidSyntax]
  have "markWhatsAppSent db1 200 NonIntegral ''wa_1'' = (Inl (DatabaseError InvalidSyntax), db1)"
    by blast
  with a b as_int4_fraction show ?thesis by blast
qed

subsection \<open>sendWhatsAppMessage\<close>

lemma send_db1:
  "sendWhatsAppMessage db1 send1 300 ''k3x9'' 301 =
     (\<lparr> success = True, messageId = Some ''wa_300_k3x9'', send_error = None \<rparr>,
      db1\<lparr> violationsTable := [v1\<lparr> whatsapp_sent := True, whatsapp_sent_at := Some 301 \<rparr>] \<rparr>)"
  by (simp add: db1_def db0_def v1_def send1_def as_int4_def
      sendWhatsAppMessage_def markWhatsAppSent_def update_where_id_def set_columns_def
      show_int_300)

text \<open>
  C4, as stated, fails: for a violation id that does not exist and is not a 32-bit integer
  the lookup throws inside the \<open>try\<close>, and the returned failure is "Failed to send WhatsApp
  message", not "Violation not found".
\<close>

theorem sendWhatsAppMessage_out_of_range_counterexample:
  "violation_id send_big = Integral 2147483648 \<and> 2147483648 \<notin> violation_ids db1
   \<and> sendWhatsAppMessage db1 send_big 300 ''k3x9'' 301 =
        (\<lparr> success = False, messageId = None,
           send_error = Some ''Failed to send WhatsApp message'' \<rparr>, db1)"
  by (simp add: ids_db1 send_big_def sendWhatsAppMessage_def as_int4_def)

text \<open>
  C4, amended. \<open>sendWhatsAppMessage\<close> always returns a value (its result type has no error
  branch). When the input's \<open>violation_id\<close> is a 32-bit integer that no violation has, the
  value is \<open>{success: false, error: "Violation not found"}\<close> and the database is unchanged.
  When a violation has it, the value is \<open>{success: true, messageId}\<close> with the generated
  identifier \<open>wa_<Date.now()>_<random>\<close>, and the database differs only in that each
  violation with that id has \<open>whatsapp_sent = true\<close> and \<open>whatsapp_sent_at\<close> equal to the
  clock reading taken by \<open>markWhatsAppSent\<close>. When the \<open>violation_id\<close> is not a 32-bit
  integer, the value is \<open>{success: false, error: "Failed to send WhatsApp message"}\<close> and the
  database is unchanged.
\<close>

theorem sendWhatsAppMessage_result:
  "(as_int4 (violation_id input) = Inr i \<and> i \<notin> violation_ids s \<longrightarrow>
      sendWhatsAppMessage s input t_id rnd t_mark =
        (\<lparr> success = False, messageId = None, send_error = Some ''Violation not found'' \<rparr>, s))
   \<and> (as_int4 (violation_id input) = Inr i \<and> i \<in> violation_ids s \<longrightarrow>
      sendWhatsAppMessage s input t_id rnd t_mark =
        (\<lparr> success = True, messageId = Some (''wa_'' @ show_int t_id @ ''_'' @ rnd),
           send_error = None \<rparr>,
         s\<lparr> violationsTable :=
              map (\<lambda>v. if v_id v = i
                        then v\<lparr> whatsapp_sent := True, whatsapp_sent_at := Some t_mark \<rparr>
                        else v) (violationsTable s) \<rparr>))
   \<and> (as_int4 (violation_id input) = Inl e \<longrightarrow>
      sendWhatsAppMessage s input t_id rnd t_mark =
        (\<lparr> success = False, messageId = None,
           send_error = Some ''Failed to send WhatsApp message'' \<rparr>, s))"
proof (intro conjI impI)
  assume a: "as_int4 (violation_id input) = Inr i \<and> i \<notin> violation_ids s"
  then have "filter (\<lambda>v. v_id v = i) (violationsTable s) = []"
    by (simp add: violation_lookup_empty_iff)
  with a show "sendWhatsAppMessage s input t_id rnd t_mark =
        (\<lparr> success = False, messageId = None, send_error = Some ''Violation not found'' \<rparr>, s)"
    by (simp add: sendWhatsAppMessage_def)
next
  assume a: "as_int4 (violation_id input) = Inr i \<and> i \<in> violation_ids s"
  then have "filter (\<lambda>v. v_id v = i) (violationsTable s) \<noteq> []"
    by (simp add: violation_lookup_empty_iff)
  then obtain r rs where
    found: "take 1 (filter (\<lambda>v. v_id v = i) (violationsTable s)) = r # rs"
    by (cases "filter (\<lambda>v. v_id v = i) (violationsTable s)") auto
  from a have m: "as_int4 (violation_id input) = Inr i" by simp
  show "sendWhatsAppMessage s input t_id rnd t_mark =
        (\<lparr> success = True, messageId = Some (''wa_'' @ show_int t_id @ ''_'' @ rnd),
           send_error = None \<rparr>,
         s\<lparr> violationsTable :=
              map (\<lambda>v. if v_id v = i
                        then v\<lparr> whatsapp_sent := True, whatsapp_sent_at := Some t_mark \<rparr>
                        else v) (violationsTable s) \<rparr>)"
    unfolding sendWhatsAppMessage_def m sum.case found list.case Let_def
      markWhatsAppSent_in_range [OF m]
    by simp
next
  assume "as_int4 (violation_id input) = Inl e"
  then show "sendWhatsAppMessage s input t_id rnd t_mark =
        (\<lparr> success = False, messageId = None,
           send_error = Some ''Failed to send WhatsApp message'' \<rparr>, s)"
    by (simp add: sendWhatsAppMessage_def)
qed

theorem sendWhatsAppMessage_result_witness:
  "as_int4 (violation_id send7) = Inr 7 \<and> 7 \<notin> violation_ids db1
   \<and> sendWhatsAppMessage db1 send7 300 ''k3x9'' 301 =
        (\<lparr> success = False, messageId = None, send_error = Some ''Violation not found'' \<rparr>, db1)
   \<and> as_int4 (violation_id send1) = Inr 1 \<and> 1 \<in> violation_ids db1
   \<and> sendWhatsAppMessage db1 send1 300 ''k3x9'' 301 =
        (\<lparr> success = True, messageId = Some ''wa_300_k3x9'', send_error = None \<rparr>,
         db1\<lparr> violationsTable := [v1\<lparr> whatsapp_sent := True, whatsapp_sent_at := Some 301 \<rparr>] \<rparr>)
   \<and> as_int4 (violation_id send_big) = Inl OutOfRange
   \<and> sendWhatsAppMessage db1 send_big 300 ''k3x9'' 301 =
        (\<lparr> success = False, messageId = None,
           send_error = Some ''Failed to send WhatsApp message'' \<rparr>, db1)"
proof -
  have a: "as_int4 (violation_id send7) = Inr 7 \<and> 7 \<notin> violation_ids db1"
    by (simp add: ids_db1 send7_def as_int4_7)
  have b: "as_int4 (violation_id send1) = Inr 1 \<and> 1 \<in> violation_ids db1"
    by (simp add: ids_db1 send1_def as_int4_1)
  have c: "as_int4 (violation_id send_big) = Inl OutOfRange"
    by (simp add: send_big_def as_int4_big)
  from a sendWhatsAppMessage_result [of send7 7 db1 300 "''k3x9''" 301]
  have a': "sendWhatsAppMessage db1 send7 300 ''k3x9'' 301 =
        (\<lparr> success = False, messageId = None, send_error = Some ''Violation not found'' \<rparr>, db1)"
    by blast
  from c sendWhatsAppMessage_result [of send_big _ db1 300 "''k3x9''" 301 OutOfRange]
  have c': "sendWhatsAppMessage db1 send_big 300 ''k3x9'' 301 =
        (\<lparr> success = False, messageId = None,
           send_error = Some ''Failed to send WhatsApp message'' \<rparr>, db1)"
    by blast
  from a a' b c c' send_db1 show ?thesis by blast
qed

subsection \<open>deleteStudent\<close>

lemma filter_neq_absent: "i \<notin> f ` set xs \<Longrightarrow> filter (\<lambda>r. f r \<noteq> i) xs = xs"
  by (induction xs) auto

lemma fk_student_no_dangling:
  "fk_student s \<Longrightarrow> i \<notin> student_ids s \<Longrightarrow> filter (\<lambda>v. student_id v = i) (violationsTable s) = []"
  by (auto simp: fk_student_def student_ids_def list_all_iff filter_empty_conv)

lemma ids_students_db1: "student_ids db1 = {1}"
  by (simp add: student_ids_def db1_def db0_def)

lemma fk_db1: "fk_student db1"
  by (simp add: fk_student_def db1_def db0_def v1_def)

lemma fk_db0: "fk_student db0"
  by (simp add: fk_student_def db0_def)

text \<open>
  C9, as stated, fails: for an id that no student has and that is not a 32-bit integer the
  count query throws the error of the database, not "Student not found".
\<close>

theorem deleteStudent_out_of_range_counterexample:
  "2147483648 \<notin> student_ids db1 \<and> fk_student db1
   \<and> deleteStudent db1 (Integral 2147483648) = (Inl (DatabaseError OutOfRange), db1)"
  by (simp add: ids_students_db1 fk_db1 deleteStudent_def as_int4_def)

text \<open>
  C9, amended. For an id that is a 32-bit integer: \<open>deleteStudent\<close> on a stored student that
  at least one violation references fails with the error "Cannot delete student with
  existing violations" and leaves the database (so the student) as it was; on a stored
  student that no violation references it succeeds, and afterwards no student has that id
  while the other students, the violations and the users are untouched; on an id that no
  student has it fails with "Student not found" and changes nothing (the database satisfies
  the foreign key of \<open>violations.student_id\<close>, so no violation references the missing id).
  For a number that is not a 32-bit integer it fails with the error of the database and
  changes nothing.
\<close>

theorem deleteStudent_cases:
  "(as_int4 n = Inr i \<and> i \<in> student_ids s \<and> (\<exists>v \<in> set (violationsTable s). student_id v = i) \<longrightarrow>
      deleteStudent s n = (Inl (Error ''Cannot delete student with existing violations''), s))
   \<and> (as_int4 n = Inr i \<and> i \<in> student_ids s
        \<and> (\<forall>v \<in> set (violationsTable s). student_id v \<noteq> i) \<longrightarrow>
      (\<exists>s'. deleteStudent s n = (Inr (), s')
          \<and> i \<notin> student_ids s'
          \<and> studentsTable s' = filter (\<lambda>r. st_id r \<noteq> i) (studentsTable s)
          \<and> violationsTable s' = violationsTable s \<and> usersTable s' = usersTable s
          \<and> violations_id_seq s' = violations_id_seq s))
   \<and> (as_int4 n = Inr i \<and> i \<notin> student_ids s \<and> fk_student s \<longrightarrow>
      deleteStudent s n = (Inl (Error ''Student not found''), s))
   \<and> (as_int4 n = Inl e \<longrightarrow> deleteStudent s n = (Inl (DatabaseError e), s))"
proof (intro conjI impI)
  assume a: "as_int4 n = Inr i \<and> i \<in> student_ids s
     \<and> (\<exists>v \<in> set (violationsTable s). student_id v = i)"
  then have "filter (\<lambda>v. student_id v = i) (violationsTable s) \<noteq> []"
    by (auto simp: filter_empty_conv)
  with a show "deleteStudent s n = (Inl (Error ''Cannot delete student with existing violations''), s)"
    by (simp add: deleteStudent_def)
next
  assume a: "as_int4 n = Inr i \<and> i \<in> student_ids s
     \<and> (\<forall>v \<in> set (violationsTable s). student_id v \<noteq> i)"
  then have none: "filter (\<lambda>v. student_id v = i) (violationsTable s) = []"
    by (auto simp: filter_empty_conv)
  from a have some: "filter (\<lambda>r. st_id r = i) (studentsTable s) \<noteq> []"
    by (auto simp: student_ids_def filter_empty_conv)
  let ?s' = "s\<lparr> studentsTable := filter (\<lambda>r. st_id r \<noteq> i) (studentsTable s) \<rparr>"
  have "deleteStudent s n = (Inr (), ?s')"
    using a none some by (simp add: deleteStudent_def Let_def)
  moreover have "i \<notin> student_ids ?s'"
    by (auto simp: student_ids_def)
  ultimately show "\<exists>s'. deleteStudent s n = (Inr (), s')
          \<and> i \<notin> student_ids s'
          \<and> studentsTable s' = filter (\<lambda>r. st_id r \<noteq> i) (studentsTable s)
          \<and> violationsTable s' = violationsTable s \<and> usersTable s' = usersTable s
          \<and> violations_id_seq s' = violations_id_seq s"
    by (intro exI [of _ ?s']) simp
next
  assume a: "as_int4 n = Inr i \<and> i \<notin> student_ids s \<and> fk_student s"
  then have none: "filter (\<lambda>v. student_id v = i) (violationsTable s) = []"
    by (simp add: fk_student_no_dangling)
  from a have nos: "filter (\<lambda>r. st_id r = i) (studentsTable s) = []"
    by (auto simp: student_ids_def filter_empty_conv)
  from a have same: "filter (\<lambda>r. st_id r \<noteq> i) (studentsTable s) = studentsTable s"
    by (simp add: student_ids_def filter_neq_absent)
  show "deleteStudent s n = (Inl (Error ''Student not found''), s)"
    using a none nos same by (simp add: deleteStudent_def Let_def)
next
  assume "as_int4 n = Inl e"
  then show "deleteStudent s n = (Inl (DatabaseError e), s)"
    by (simp add: deleteStudent_def)
qed

theorem deleteStudent_cases_witness:
  "as_int4 (Integral 1) = Inr 1 \<and> 1 \<in> student_ids db1
   \<and> deleteStudent db1 (Integral 1) =
        (Inl (Error ''Cannot delete student with existing violations''), db1)
   \<and> 1 \<in> student_ids db0
   \<and> deleteStudent db0 (Integral 1) = (Inr (), db0\<lparr> studentsTable := [] \<rparr>)
   \<and> as_int4 (Integral 999) = Inr 999 \<and> 999 \<notin> student_ids db1 \<and> fk_student db1
   \<and> deleteStudent db1 (Integral 999) = (Inl (Error ''Student not found''), db1)
   \<and> as_int4 (Integral 2147483648) = Inl OutOfRange
   \<and> deleteStudent db1 (Integral 2147483648) = (Inl (DatabaseError OutOfRange), db1)"
proof -
  have h1: "as_int4 (Integral 1) = Inr 1 \<and> 1 \<in> student_ids db1
      \<and> (\<exists>v \<in> set (violationsTable db1). student_id v = 1)"
    by (simp add: ids_students_db1 as_int4_1) (simp add: db1_def v1_def)
  with deleteStudent_cases [of "Integral 1" 1 db1]
  have a: "deleteStudent db1 (Integral 1) =
      (Inl (Error ''Cannot delete student with existing violations''), db1)"
    by blast
  have h3: "as_int4 (Integral 999) = Inr 999 \<and> 999 \<notin> student_ids db1 \<and> fk_student db1"
    by (simp add: ids_students_db1 fk_db1 as_int4_999)
  with deleteStudent_cases [of "Integral 999" 999 db1]
  have c: "deleteStudent db1 (Integral 999) = (Inl (Error ''Student not found''), db1)"
    by blast
  have h2: "as_int4 (Integral 1) = Inr 1 \<and> 1 \<in> student_ids db0
      \<and> (\<forall>v \<in> set (violationsTable db0). student_id v \<noteq> 1)"
    by (simp add: student_ids_def db0_def as_int4_1)
  with deleteStudent_cases [of "Integral 1" 1 db0]
  obtain s' where "deleteStudent db0 (Integral 1) = (Inr (), s')"
    and "studentsTable s' = filter (\<lambda>r. st_id r \<noteq> 1) (studentsTable db0)"
    by blast
  moreover have "deleteStudent db0 (Integral 1) = (Inr (), db0\<lparr> studentsTable := [] \<rparr>)"
    by (simp add: deleteStudent_def db0_def as_int4_def)
  moreover from as_int4_big deleteStudent_cases [of "Integral 2147483648" _ db1 OutOfRange]
  have "deleteStudent db1 (Integral 2147483648) = (Inl (DatabaseError OutOfRange), db1)"
    by blast
  ultimately show ?thesis using a c h1 h2 h3 as_int4_big by simp
qed

subsection \<open>Listing violations\<close>

text \<open>
  The stable sort on the negated \<open>violation_time\<close> is one of the orders that
  \<open>ORDER BY violation_time DESC\<close> admits.
\<close>

lemma sorted_desc_stable_order: "sorted_desc (stable_order rows)"
proof -
  have "sorted (map (\<lambda>v. - violation_time v) (sort_key (\<lambda>v. - violation_time v) rows))"
    by (rule sorted_sort_key)
  then show ?thesis
    by (simp add: sorted_desc_def stable_order_def sorted_map)
qed

lemma mset_stable_order [simp]: "mset (stable_order rows) = mset rows"
  by (simp add: stable_order_def)

lemma stable_order_admissible: "orders_by_violation_time_desc stable_order"
  by (simp add: orders_by_violation_time_desc_def sorted_desc_stable_order)

lemma length_stable_order [simp]: "length (stable_order rows) = length rows"
  by (simp add: stable_order_def)

lemma order_mset: "orders_by_violation_time_desc ord \<Longrightarrow> mset (ord rows) = mset rows"
  by (simp add: orders_by_violation_time_desc_def)

lemma order_sorted: "orders_by_violation_time_desc ord \<Longrightarrow> sorted_desc (ord rows)"
  by (simp add: orders_by_violation_time_desc_def)

lemma order_Nil: "orders_by_violation_time_desc ord \<Longrightarrow> ord [] = []"
  using order_mset [of ord "[]"] by simp

lemma order_length: "orders_by_violation_time_desc ord \<Longrightarrow> length (ord rows) = length rows"
  using order_mset [of ord rows] by (metis size_mset)

lemma sorted_desc_take: "sorted_desc rows \<Longrightarrow> sorted_desc (take n rows)"
  by (simp add: sorted_desc_def sorted_wrt_take)

lemma show_int_999: "show_int 999 = ''999''"
  by (simp add: show_int_def show_nat.simps digit_def)

lemma ids_students_db2: "student_ids db2 = {1}"
  by (simp add: student_ids_def db2_def db0_def)

lemma fk_db2: "fk_student db2"
  by (simp add: fk_student_def db2_def db0_def v1_def v2_def)

lemma getViolationsByStudent_db2:
  "getViolationsByStudent stable_order db2 (Integral 1) = Inr [v2, v1]"
  by (simp add: getViolationsByStudent_def as_int4_def db2_def db0_def v1_def v2_def
      stable_order_def)

lemma getViolations_db2:
  "getViolations stable_order db2 (by_student (Integral 1)) = Inr [v2, v1]"
  by (simp add: getViolations_def by_student_def as_int4_def db2_def db0_def v1_def v2_def
      stable_order_def)

lemma length_many_violations [simp]: "length (many_violations n) = n"
  by (induction n) simp_all

lemma student_of_many_violations:
  "v \<in> set (many_violations n) \<Longrightarrow> student_id v = 1"
  by (induction n) (auto simp: v1_def)

lemma filter_many_violations:
  "filter (\<lambda>v. student_id v = 1) (many_violations n) = many_violations n"
  by (simp add: student_of_many_violations)

lemma fk_db_many: "fk_student db_many"
  by (auto simp: fk_student_def db_many_def db0_def list_all_iff dest: student_of_many_violations)

text \<open>
  C2, as stated, fails twice. For a student with more than 1000 violations: with 1001 of
  them \<open>getViolationsByStudent\<close> returns all 1001, \<open>getViolations({student_id})\<close> only the
  1000 that its default limit lets through. And for a student id that no student has and
  that is not a 32-bit integer, both queries throw the error of the database:
  \<open>getViolations\<close> does not return the empty list, \<open>getViolationsByStudent\<close> does not fail
  with "not found".
\<close>

theorem getViolations_default_limit_counterexample:
  "fk_student db_many \<and> 1 \<in> student_ids db_many
   \<and> getViolationsByStudent stable_order db_many (Integral 1) =
        Inr (stable_order (many_violations 1001))
   \<and> length (stable_order (many_violations 1001)) = 1001
   \<and> getViolations stable_order db_many (by_student (Integral 1)) =
        Inr (take 1000 (stable_order (many_violations 1001)))
   \<and> length (take 1000 (stable_order (many_violations 1001))) = 1000
   \<and> 2147483648 \<notin> student_ids db_many
   \<and> getViolations stable_order db_many (by_student (Integral 2147483648)) =
        Inl (DatabaseError OutOfRange)
   \<and> getViolationsByStudent stable_order db_many (Integral 2147483648) =
        Inl (DatabaseError OutOfRange)"
proof -
  have "1 \<in> student_ids db_many" "2147483648 \<notin> student_ids db_many"
    by (simp_all add: student_ids_def db_many_def db0_def)
  moreover have "getViolationsByStudent stable_order db_many (Integral 1) =
      Inr (stable_order (many_violations 1001))"
    by (simp add: getViolationsByStudent_def as_int4_def db_many_def db0_def
        filter_many_violations)
  moreover have "getViolations stable_order db_many (by_student (Integral 1)) =
      Inr (take 1000 (stable_order (many_violations 1001)))"
    by (simp add: getViolations_def as_int4_def by_student_def db_many_def
        filter_many_violations)
  moreover have "getViolations stable_order db_many (by_student (Integral 2147483648)) =
      Inl (DatabaseError OutOfRange)"
    by (simp add: getViolations_def as_int4_def by_student_def)
  moreover have "getViolationsByStudent stable_order db_many (Integral 2147483648) =
      Inl (DatabaseError OutOfRange)"
    by (simp add: getViolationsByStudent_def as_int4_def)
  ultimately show ?thesis using fk_db_many by simp
qed

text \<open>
  C2, amended. In a database that satisfies the foreign key of \<open>violations.student_id\<close>, and
  whatever order each of the two queries gives to rows of equal \<open>violation_time\<close>
  (\<open>ord1\<close> is the order of the query of \<open>getViolations\<close>, \<open>ord2\<close> that of
  \<open>getViolationsByStudent\<close>; each is any rearrangement sorted by \<open>violation_time\<close>
  descending): for a student id \<open>X\<close> that is a 32-bit integer and that no student has,
  \<open>getViolations({student_id: X})\<close> returns the empty list and raises nothing, while
  \<open>getViolationsByStudent(X)\<close> fails with "Student with ID X not found". For a stored
  student, \<open>getViolationsByStudent\<close> returns exactly that student's violations, ordered by
  \<open>violation_time\<close> descending, and \<open>getViolations({student_id: X})\<close> returns the first 1000
  rows (its default limit) of such an ordering of that student's violations, itself ordered
  by \<open>violation_time\<close> descending; these are all of the student's violations when there are
  at most 1000. For a number that is not a 32-bit integer both fail with the error of the
  database.
\<close>

theorem getViolations_vs_getViolationsByStudent:
  assumes "fk_student s"
    and "orders_by_violation_time_desc ord1"
    and "orders_by_violation_time_desc ord2"
  shows "(as_int4 X = Inr x \<and> x \<notin> student_ids s \<longrightarrow>
            getViolations ord1 s (by_student X) = Inr []
          \<and> getViolationsByStudent ord2 s X =
              Inl (Error (''Student with ID '' @ show_int x @ '' not found'')))
       \<and> (as_int4 X = Inr x \<and> x \<in> student_ids s \<longrightarrow>
            (\<exists>every rows.
                 getViolationsByStudent ord2 s X = Inr every
               \<and> mset every = mset (filter (\<lambda>v. student_id v = x) (violationsTable s))
               \<and> sorted_desc every
               \<and> getViolations ord1 s (by_student X) = Inr rows
               \<and> sorted_desc rows
               \<and> (\<exists>ordered.
                      mset ordered = mset (filter (\<lambda>v. student_id v = x) (violationsTable s))
                    \<and> sorted_desc ordered \<and> rows = take 1000 ordered)
               \<and> (length (filter (\<lambda>v. student_id v = x) (violationsTable s)) \<le> 1000 \<longrightarrow>
                    mset rows = mset (filter (\<lambda>v. student_id v = x) (violationsTable s)))))
       \<and> (as_int4 X = Inl e \<longrightarrow>
            getViolations ord1 s (by_student X) = Inl (DatabaseError e)
          \<and> getViolationsByStudent ord2 s X = Inl (DatabaseError e))"
proof (intro conjI impI)
  assume a: "as_int4 X = Inr x \<and> x \<notin> student_ids s"
  with assms(1) have "filter (\<lambda>v. student_id v = x) (violationsTable s) = []"
    by (simp add: fk_student_no_dangling)
  with a show "getViolations ord1 s (by_student X) = Inr []"
    by (simp add: getViolations_def by_student_def order_Nil [OF assms(2)])
next
  assume a: "as_int4 X = Inr x \<and> x \<notin> student_ids s"
  then have "filter (\<lambda>r. st_id r = x) (studentsTable s) = []"
    by (auto simp: student_ids_def filter_empty_conv)
  with a show "getViolationsByStudent ord2 s X =
      Inl (Error (''Student with ID '' @ show_int x @ '' not found''))"
    by (simp add: getViolationsByStudent_def)
next
  let ?mine = "filter (\<lambda>v. student_id v = x) (violationsTable s)"
  assume a: "as_int4 X = Inr x \<and> x \<in> student_ids s"
  then have "filter (\<lambda>r. st_id r = x) (studentsTable s) \<noteq> []"
    by (auto simp: student_ids_def filter_empty_conv)
  with a have 1: "getViolationsByStudent ord2 s X = Inr (ord2 ?mine)"
    by (simp add: getViolationsByStudent_def)
  have 2: "mset (ord2 ?mine) = mset ?mine"
    by (rule order_mset [OF assms(3)])
  have 3: "sorted_desc (ord2 ?mine)"
    by (rule order_sorted [OF assms(3)])
  from a have 4: "getViolations ord1 s (by_student X) = Inr (take 1000 (ord1 ?mine))"
    by (simp add: getViolations_def by_student_def)
  have 5: "sorted_desc (take 1000 (ord1 ?mine))"
    by (rule sorted_desc_take) (rule order_sorted [OF assms(2)])
  have 6: "\<exists>ordered. mset ordered = mset ?mine \<and> sorted_desc ordered
      \<and> take 1000 (ord1 ?mine) = take 1000 ordered"
    using order_mset [OF assms(2)] order_sorted [OF assms(2)] by blast
  have 7: "length ?mine \<le> 1000 \<longrightarrow> mset (take 1000 (ord1 ?mine)) = mset ?mine"
    by (simp add: order_length [OF assms(2)] order_mset [OF assms(2)])
  from 1 2 3 4 5 6 7
  show "\<exists>every rows.
                 getViolationsByStudent ord2 s X = Inr every
               \<and> mset every = mset (filter (\<lambda>v. student_id v = x) (violationsTable s))
               \<and> sorted_desc every
               \<and> getViolations ord1 s (by_student X) = Inr rows
               \<and> sorted_desc rows
               \<and> (\<exists>ordered.
                      mset ordered = mset (filter (\<lambda>v. student_id v = x) (violationsTable s))
                    \<and> sorted_desc ordered \<and> rows = take 1000 ordered)
               \<and> (length (filter (\<lambda>v. student_id v = x) (violationsTable s)) \<le> 1000 \<longrightarrow>
                    mset rows = mset (filter (\<lambda>v. student_id v = x) (violationsTable s)))"
    by blast
next
  assume "as_int4 X = Inl e"
  then show "getViolations ord1 s (by_student X) = Inl (DatabaseError e)"
    by (simp add: getViolations_def by_student_def)
next
  assume "as_int4 X = Inl e"
  then show "getViolationsByStudent ord2 s X = Inl (DatabaseError e)"
    by (simp add: getViolationsByStudent_def)
qed

theorem getViolations_vs_getViolationsByStudent_witness:
  "fk_student db2
   \<and> orders_by_violation_time_desc stable_order
   \<and> as_int4 (Integral 999) = Inr 999 \<and> 999 \<notin> student_ids db2
   \<and> getViolations stable_order db2 (by_student (Integral 999)) = Inr []
   \<and> getViolationsByStudent stable_order db2 (Integral 999) =
        Inl (Error ''Student with ID 999 not found'')
   \<and> as_int4 (Integral 1) = Inr 1 \<and> 1 \<in> student_ids db2
   \<and> getViolationsByStudent stable_order db2 (Integral 1) = Inr [v2, v1]
   \<and> getViolations stable_order db2 (by_student (Integral 1)) = Inr [v2, v1]
   \<and> mset [v2, v1] = mset (filter (\<lambda>v. student_id v = 1) (violationsTable db2))
   \<and> sorted_desc [v2, v1]
   \<and> as_int4 (Integral 2147483648) = Inl OutOfRange
   \<and> getViolations stable_order db2 (by_student (Integral 2147483648)) =
        Inl (DatabaseError OutOfRange)
   \<and> getViolationsByStudent stable_order db2 (Integral 2147483648) =
        Inl (DatabaseError OutOfRange)"
proof -
  note inst = getViolations_vs_getViolationsByStudent
    [OF fk_db2 stable_order_admissible stable_order_admissible]
  have a: "as_int4 (Integral 999) = Inr 999 \<and> 999 \<notin> student_ids db2"
    and b: "as_int4 (Integral 1) = Inr 1 \<and> 1 \<in> student_ids db2"
    by (simp_all add: ids_students_db2 as_int4_999 as_int4_1)
  from inst [of "Integral 999" 999] a
  have c: "getViolations stable_order db2 (by_student (Integral 999)) = Inr []
     \<and> getViolationsByStudent stable_order db2 (Integral 999) =
         Inl (Error ''Student with ID 999 not found'')"
    by (simp add: show_int_999)
  from inst [of "Integral 1" 1] b obtain every rows where
    "getViolationsByStudent stable_order db2 (Integral 1) = Inr every"
    "mset every = mset (filter (\<lambda>v. student_id v = 1) (violationsTable db2))"
    "sorted_desc every"
    "getViolations stable_order db2 (by_student (Integral 1)) = Inr rows"
    by blast
  then have d: "mset [v2, v1] = mset (filter (\<lambda>v. student_id v = 1) (violationsTable db2))
      \<and> sorted_desc [v2, v1]"
    by (simp add: getViolationsByStudent_db2)
  from inst [of "Integral 2147483648" _ OutOfRange] as_int4_big
  have e: "getViolations stable_order db2 (by_student (Integral 2147483648)) =
        Inl (DatabaseError OutOfRange)
     \<and> getViolationsByStudent stable_order db2 (Integral 2147483648) =
        Inl (DatabaseError OutOfRange)"
    by blast
  from a b c d e fk_db2 stable_order_admissible getViolationsByStudent_db2 getViolations_db2
    as_int4_big
  show ?thesis by blast
qed

subsection \<open>updateViolation\<close>


lemma check_student_absent: "up_student_id input = None \<Longrightarrow> check_student s (up_student_id input) = Inr None"
  by (simp add: check_student_def)


















subsection \<open>The invariant on \<open>whatsapp_sent_at\<close>\<close>

lemma createViolation_sent_at_iff_sent:
  "createViolation s now input = (Inr v, s') \<Longrightarrow> sent_at_iff_sent v"
  by (auto simp: createViolation_def sent_at_iff_sent_def Let_def split: if_splits sum.splits)

lemma markWhatsAppSent_sent_at_iff_sent:
  assumes "markWhatsAppSent s now n m = (Inr (), s')" and "as_int4 n = Inr i"
    and "v \<in> set (violationsTable s')" and "v_id v = i"
  shows "sent_at_iff_sent v"
proof -
  from assms(1,2) have "violationsTable s' =
      map (\<lambda>v. if v_id v = i
                then v\<lparr> whatsapp_sent := True, whatsapp_sent_at := Some now \<rparr>
                else v) (violationsTable s)"
    by (auto simp: markWhatsAppSent_in_range)
  with assms(3) have "v \<in> (\<lambda>v. if v_id v = i
                then v\<lparr> whatsapp_sent := True, whatsapp_sent_at := Some now \<rparr>
                else v) ` set (violationsTable s)"
    by simp
  then obtain u where
    "v = (if v_id u = i then u\<lparr> whatsapp_sent := True, whatsapp_sent_at := Some now \<rparr> else u)"
    by (rule imageE)
  with assms(4) have "v = u\<lparr> whatsapp_sent := True, whatsapp_sent_at := Some now \<rparr>"
    by (cases "v_id u = i") auto
  then show ?thesis by (simp add: sent_at_iff_sent_def)
qed

lemma partial_update_sent_at_iff_sent:
  assumes "partial_update_of t_updated t_sent input v v'" and "sent_at_iff_sent v"
    and "\<not> (up_whatsapp_sent input = Some False \<and> whatsapp_sent v)"
  shows "sent_at_iff_sent v'"
  using assms
  by (auto simp: partial_update_of_def sent_at_iff_sent_def split: option.splits)

lemma mark_db1:
  "markWhatsAppSent db1 150 (Integral 1) ''wa_150_k3x9'' =
     (Inr (), db1\<lparr> violationsTable := [v1_sent] \<rparr>)"
  by (simp add: markWhatsAppSent_def as_int4_def db1_def db0_def v1_def v1_sent_def
      update_where_id_def set_columns_def)

lemma update_unmark1:
  "updateViolation (db1\<lparr> violationsTable := [v1_sent] \<rparr>) 200 201 unmark1 =
     (Inr (Some v1_unmarked), db1\<lparr> violationsTable := [v1_unmarked] \<rparr>)"
  by (simp add: updateViolation_def check_student_def as_int4_def db1_def db0_def v1_def
      unmark1_def v1_sent_def v1_unmarked_def
      build_updateData_def update_where_id_def set_columns_def)

text \<open>
  C1. After creating a violation and marking it as sent, an update that supplies
  \<open>whatsapp_sent: false\<close> stores \<open>whatsapp_sent = false\<close> and keeps the old timestamp: the
  stored record has a non-null \<open>whatsapp_sent_at\<close> while \<open>whatsapp_sent\<close> is false.
\<close>

theorem updateViolation_unmark_keeps_timestamp:
  "createViolation db0 100 input0 = (Inr v1, db1)
   \<and> markWhatsAppSent db1 150 (Integral 1) ''wa_150_k3x9'' =
        (Inr (), db1\<lparr> violationsTable := [v1_sent] \<rparr>)
   \<and> updateViolation (db1\<lparr> violationsTable := [v1_sent] \<rparr>) 200 201 unmark1 =
        (Inr (Some v1_unmarked), db1\<lparr> violationsTable := [v1_unmarked] \<rparr>)
   \<and> whatsapp_sent v1_unmarked = False
   \<and> whatsapp_sent_at v1_unmarked = Some 150
   \<and> \<not> sent_at_iff_sent v1_unmarked"
  by (simp add: create_db0 mark_db1 update_unmark1)
     (simp add: v1_unmarked_def sent_at_iff_sent_def)

subsection \<open>validatePhotoFormat\<close>

lemma semicolon_not_word: "\<not> is_word CHR '';''"
  by (simp add: is_word_def upper_letters_def lower_letters_def)

lemma equals_not_base64: "\<not> is_base64_char CHR ''=''"
  by (simp add: is_base64_char_def base64_alphabet_def upper_letters_def lower_letters_def)

lemma match_data_url_iff:
  "(match_data_url s = Some (fmt, payload)) = is_data_url s fmt payload"
proof
  assume m: "match_data_url s = Some (fmt, payload)"
  then have p: "prefix ''data:image/'' s"
    by (simp add: match_data_url_def split: if_splits)
  then obtain r where s: "s = ''data:image/'' @ r"
    by (auto simp: prefix_def)
  from m s have w: "takeWhile is_word r = fmt" "fmt \<noteq> []"
    and t: "prefix '';base64,'' (dropWhile is_word r)" "drop 8 (dropWhile is_word r) = payload"
    by (auto simp: match_data_url_def Let_def split: if_splits)
  from t(1) obtain q where q: "dropWhile is_word r = '';base64,'' @ q"
    by (auto simp: prefix_def)
  with t(2) have "q = payload" by simp
  with q have "r = fmt @ '';base64,'' @ payload"
    using takeWhile_dropWhile_id [of is_word r] w(1) by simp
  moreover have "list_all is_word fmt"
    using w(1) by (auto simp: list_all_iff dest: set_takeWhileD)
  ultimately show "is_data_url s fmt payload"
    using s w(2) by (simp add: is_data_url_def)
next
  assume "is_data_url s fmt payload"
  then have s: "s = ''data:image/'' @ fmt @ '';base64,'' @ payload"
    and f: "fmt \<noteq> []" "list_all is_word fmt"
    by (simp_all add: is_data_url_def)
  from f(2) have all: "\<And>x. x \<in> set fmt \<Longrightarrow> is_word x"
    by (simp add: list_all_iff)
  have tw: "takeWhile is_word (fmt @ '';base64,'' @ payload) = fmt"
    using all by (simp add: takeWhile_append2 semicolon_not_word)
  have dw: "dropWhile is_word (fmt @ '';base64,'' @ payload) = '';base64,'' @ payload"
    using all by (simp add: dropWhile_append2 semicolon_not_word)
  show "match_data_url s = Some (fmt, payload)"
    unfolding match_data_url_def s using f(1) tw dw by (simp add: Let_def)
qed

lemma match_data_url_None_iff:
  "(match_data_url s = None) = (\<forall>fmt payload. \<not> is_data_url s fmt payload)"
proof -
  have "(match_data_url s = None) = (\<forall>fmt payload. match_data_url s \<noteq> Some (fmt, payload))"
    by (cases "match_data_url s") auto
  then show ?thesis by (simp add: match_data_url_iff)
qed

lemma test_base64_iff: "test_base64 p = is_base64_text p"
proof
  assume "test_base64 p"
  then have pad: "dropWhile is_base64_char p = [] \<or> dropWhile is_base64_char p = ''=''
      \<or> dropWhile is_base64_char p = ''==''"
    by (simp add: test_base64_def Let_def)
  have "p = takeWhile is_base64_char p @ dropWhile is_base64_char p" by simp
  moreover have "list_all is_base64_char (takeWhile is_base64_char p)"
    by (auto simp: list_all_iff dest: set_takeWhileD)
  ultimately show "is_base64_text p"
    unfolding is_base64_text_def using pad by blast
next
  assume "is_base64_text p"
  then obtain body pad where p: "p = body @ pad" and b: "list_all is_base64_char body"
    and pad: "pad = [] \<or> pad = ''='' \<or> pad = ''==''"
    by (auto simp: is_base64_text_def)
  from b have "dropWhile is_base64_char p = dropWhile is_base64_char pad"
    unfolding p by (simp add: list_all_iff dropWhile_append2)
  also have "\<dots> = pad"
    using pad by (auto simp: equals_not_base64)
  finally show "test_base64 p"
    using pad by (simp add: test_base64_def Let_def)
qed

lemma toLowerCase_allowed:
  "f \<in> set ALLOWED_FORMATS \<Longrightarrow> toLowerCase f = f"
  by (auto simp: ALLOWED_FORMATS_def toLowerCase_def upper_letters_def lower_letters_def)

lemma eight_bytes:
  "8 \<le> length (xs :: byte list) \<Longrightarrow> \<exists>a b c d e f g h r. xs = a # b # c # d # e # f # g # h # r"
  by (auto simp: numeral_eq_Suc Suc_le_length_iff)

lemma validateImageHeader_iff:
  assumes "f \<in> set ALLOWED_FORMATS"
  shows "validateImageHeader bytes f = (8 \<le> length bytes \<and> has_signature f bytes)"
proof (cases "8 \<le> length bytes")
  case False
  then show ?thesis by (simp add: validateImageHeader_def)
next
  case True
  then obtain a b c d e g h i r where "bytes = a # b # c # d # e # g # h # i # r"
    using eight_bytes by blast
  then show ?thesis
    using assms
    by (auto simp: validateImageHeader_def toLowerCase_allowed has_signature_def byte_at_def
        Let_def ALLOWED_FORMATS_def)
qed

lemma show_nat_5: "show_nat (MAX_FILE_SIZE div (1024 * 1024)) = ''5''"
  by (simp add: MAX_FILE_SIZE_def show_nat.simps digit_def)

text \<open>
  C6, amended. A string that is not of the form \<open>data:image/<fmt>;base64,<payload>\<close> (with
  \<open>fmt\<close> a non-empty run of word characters) is rejected with "Invalid base64 image data
  format". For a string of that form the checks run in this order, on the lower-cased
  \<open>fmt\<close>: a format outside jpeg, jpg, png, gif gives "Unsupported image format: ..."; a
  non-empty payload that is not base64 characters followed by at most two \<open>=\<close> gives
  "Invalid base64 encoding"; a decoded payload of more than 5 MiB gives "File size exceeds
  maximum limit of 5MB"; decoded bytes that are fewer than eight or do not start with the
  signature of the format give "File does not appear to be a valid image"; otherwise the
  result is valid with the lower-cased format.
\<close>

theorem validatePhotoFormat_classification:
  "((\<forall>fmt payload. \<not> is_data_url s fmt payload) \<longrightarrow>
      validatePhotoFormat s =
        \<lparr> valid = False, format = None, val_error = Some ''Invalid base64 image data format'' \<rparr>)
   \<and> (\<forall>fmt payload. is_data_url s fmt payload \<longrightarrow>
      validatePhotoFormat s =
        (let f = toLowerCase fmt; bytes = Buffer_from_base64 payload in
         if f \<notin> {''jpeg'', ''jpg'', ''png'', ''gif''} then
           \<lparr> valid = False, format = None,
             val_error = Some (''Unsupported image format: '' @ f
                               @ ''. Allowed formats: jpeg, jpg, png, gif'') \<rparr>
         else if payload \<noteq> [] \<and> \<not> is_base64_text payload then
           \<lparr> valid = False, format = None, val_error = Some ''Invalid base64 encoding'' \<rparr>
         else if 5 * 1024 * 1024 < length bytes then
           \<lparr> valid = False, format = None,
             val_error = Some ''File size exceeds maximum limit of 5MB'' \<rparr>
         else if length bytes < 8 \<or> \<not> has_signature f bytes then
           \<lparr> valid = False, format = None,
             val_error = Some ''File does not appear to be a valid image'' \<rparr>
         else \<lparr> valid = True, format = Some f, val_error = None \<rparr>))"
proof (intro conjI impI allI)
  assume "\<forall>fmt payload. \<not> is_data_url s fmt payload"
  then have "match_data_url s = None"
    by (simp add: match_data_url_None_iff)
  then show "validatePhotoFormat s =
      \<lparr> valid = False, format = None, val_error = Some ''Invalid base64 image data format'' \<rparr>"
    by (simp add: validatePhotoFormat_def)
next
  fix fmt payload
  assume "is_data_url s fmt payload"
  then have m: "match_data_url s = Some (fmt, payload)"
    by (simp add: match_data_url_iff)
  let ?f = "toLowerCase fmt"
  let ?bytes = "Buffer_from_base64 payload"
  have allowed: "(?f \<in> set ALLOWED_FORMATS) = (?f \<in> {''jpeg'', ''jpg'', ''png'', ''gif''})"
    by (simp add: ALLOWED_FORMATS_def)
  show "validatePhotoFormat s =
        (let f = toLowerCase fmt; bytes = Buffer_from_base64 payload in
         if f \<notin> {''jpeg'', ''jpg'', ''png'', ''gif''} then
           \<lparr> valid = False, format = None,
             val_error = Some (''Unsupported image format: '' @ f
                               @ ''. Allowed formats: jpeg, jpg, png, gif'') \<rparr>
         else if payload \<noteq> [] \<and> \<not> is_base64_text payload then
           \<lparr> valid = False, format = None, val_error = Some ''Invalid base64 encoding'' \<rparr>
         else if 5 * 1024 * 1024 < length bytes then
           \<lparr> valid = False, format = None,
             val_error = Some ''File size exceeds maximum limit of 5MB'' \<rparr>
         else if length bytes < 8 \<or> \<not> has_signature f bytes then
           \<lparr> valid = False, format = None,
             val_error = Some ''File does not appear to be a valid image'' \<rparr>
         else \<lparr> valid = True, format = Some f, val_error = None \<rparr>)"
  proof (cases "?f \<in> set ALLOWED_FORMATS")
    case False
    with allowed show ?thesis
      by (simp add: validatePhotoFormat_def m Let_def)
  next
    case True
    have size: "(MAX_FILE_SIZE < length ?bytes) = (5 * 1024 * 1024 < length ?bytes)"
      by (simp add: MAX_FILE_SIZE_def)
    have header: "(\<not> validateImageHeader ?bytes ?f) = (length ?bytes < 8 \<or> \<not> has_signature ?f ?bytes)"
      using validateImageHeader_iff [OF True, of ?bytes] by auto
    from True allowed have in_set: "?f \<in> {''jpeg'', ''jpg'', ''png'', ''gif''}" by simp
    show ?thesis
      unfolding validatePhotoFormat_def m Let_def option.case prod.case
      using True in_set
      by (simp only: test_base64_iff size header show_nat_5 if_False not_True_eq_False
            simp_thms append.simps)
  qed
qed

lemma match_jpeg_data: "match_data_url jpeg_data = Some (''jpeg'', ''/9j/4AAQSkZJRg=='')"
  by (simp add: jpeg_data_def match_data_url_def is_word_def upper_letters_def lower_letters_def Let_def)

lemma decode_jpeg_data: "Buffer_from_base64 ''/9j/4AAQSkZJRg=='' = jpeg_bytes"
  by (simp add: Buffer_from_base64_def is_base64_char_def base64_alphabet_def upper_letters_def
      lower_letters_def jpeg_bytes_def)

lemma test_jpeg_data: "test_base64 ''/9j/4AAQSkZJRg==''"
  by (simp add: test_base64_def is_base64_char_def base64_alphabet_def upper_letters_def
      lower_letters_def)

lemma lower_jpeg: "toLowerCase ''jpeg'' = ''jpeg''"
  by (simp add: toLowerCase_def upper_letters_def lower_letters_def)

lemma validate_jpeg_data:
  "validatePhotoFormat jpeg_data = \<lparr> valid = True, format = Some ''jpeg'', val_error = None \<rparr>"
  by (simp add: validatePhotoFormat_def match_jpeg_data lower_jpeg ALLOWED_FORMATS_def
      test_jpeg_data decode_jpeg_data validateImageHeader_def Let_def MAX_FILE_SIZE_def)
     (simp add: jpeg_bytes_def byte_at_def)

lemma match_text: "match_data_url ''not-a-data-url'' = None"
  by (simp add: match_data_url_def)

lemma match_short: "match_data_url ''data:image/jpeg;base64,/9j/'' = Some (''jpeg'', ''/9j/'')"
  by (simp add: match_data_url_def is_word_def upper_letters_def lower_letters_def Let_def)

lemma decode_short: "Buffer_from_base64 ''/9j/'' = [0xFF, 0xD8, 0xFF]"
  by (simp add: Buffer_from_base64_def is_base64_char_def base64_alphabet_def upper_letters_def
      lower_letters_def)

lemma test_short: "test_base64 ''/9j/''"
  by (simp add: test_base64_def is_base64_char_def base64_alphabet_def upper_letters_def
      lower_letters_def)

lemma match_bad: "match_data_url ''data:image/jpeg;base64,/9j-'' = Some (''jpeg'', ''/9j-'')"
  by (simp add: match_data_url_def is_word_def upper_letters_def lower_letters_def Let_def)

lemma test_bad: "\<not> test_base64 ''/9j-''"
  by (simp add: test_base64_def is_base64_char_def base64_alphabet_def upper_letters_def
      lower_letters_def)

text \<open>
  C6, as stated, fails: \<open>data:image/jpeg;base64,/9j/\<close> is a data URL of an allowed format
  whose payload decodes to the three bytes \<open>FF D8 FF\<close>, the JPEG signature, and it is
  rejected (fewer than eight bytes); and a data URL whose payload is not base64 is rejected
  with "Invalid base64 encoding", an outcome the claim does not list.
\<close>

theorem validatePhotoFormat_classification_counterexample:
  "is_data_url ''data:image/jpeg;base64,/9j/'' ''jpeg'' ''/9j/''
   \<and> Buffer_from_base64 ''/9j/'' = [0xFF, 0xD8, 0xFF]
   \<and> has_signature ''jpeg'' (Buffer_from_base64 ''/9j/'')
   \<and> validatePhotoFormat ''data:image/jpeg;base64,/9j/'' =
        \<lparr> valid = False, format = None,
          val_error = Some ''File does not appear to be a valid image'' \<rparr>
   \<and> is_data_url ''data:image/jpeg;base64,/9j-'' ''jpeg'' ''/9j-''
   \<and> validatePhotoFormat ''data:image/jpeg;base64,/9j-'' =
        \<lparr> valid = False, format = None, val_error = Some ''Invalid base64 encoding'' \<rparr>"
proof -
  have "validatePhotoFormat ''data:image/jpeg;base64,/9j/'' =
        \<lparr> valid = False, format = None,
          val_error = Some ''File does not appear to be a valid image'' \<rparr>"
    by (simp add: validatePhotoFormat_def match_short lower_jpeg ALLOWED_FORMATS_def
        test_short decode_short validateImageHeader_def Let_def MAX_FILE_SIZE_def)
  moreover have "validatePhotoFormat ''data:image/jpeg;base64,/9j-'' =
        \<lparr> valid = False, format = None, val_error = Some ''Invalid base64 encoding'' \<rparr>"
    by (simp add: validatePhotoFormat_def match_bad lower_jpeg ALLOWED_FORMATS_def
        test_bad Let_def)
  moreover have "has_signature ''jpeg'' (Buffer_from_base64 ''/9j/'')"
    by (simp add: decode_short has_signature_def)
  ultimately show ?thesis
    using match_short match_bad decode_short by (simp add: match_data_url_iff [symmetric])
qed

theorem validatePhotoFormat_classification_witness:
  "(\<forall>fmt payload. \<not> is_data_url ''not-a-data-url'' fmt payload)
   \<and> validatePhotoFormat ''not-a-data-url'' =
        \<lparr> valid = False, format = None, val_error = Some ''Invalid base64 image data format'' \<rparr>
   \<and> is_data_url jpeg_data ''jpeg'' ''/9j/4AAQSkZJRg==''
   \<and> validatePhotoFormat jpeg_data = \<lparr> valid = True, format = Some ''jpeg'', val_error = None \<rparr>"
proof -
  have a: "\<forall>fmt payload. \<not> is_data_url ''not-a-data-url'' fmt payload"
    using match_text by (simp add: match_data_url_None_iff)
  have b: "is_data_url jpeg_data ''jpeg'' ''/9j/4AAQSkZJRg==''"
    using match_jpeg_data by (simp add: match_data_url_iff)
  have sig: "has_signature ''jpeg'' jpeg_bytes"
    by (simp add: has_signature_def jpeg_bytes_def)
  have len: "length jpeg_bytes = 10"
    by (simp add: jpeg_bytes_def)
  have b64: "is_base64_text ''/9j/4AAQSkZJRg==''"
    using test_jpeg_data by (simp add: test_base64_iff)
  from a validatePhotoFormat_classification [of "''not-a-data-url''"]
  have c: "validatePhotoFormat ''not-a-data-url'' =
        \<lparr> valid = False, format = None, val_error = Some ''Invalid base64 image data format'' \<rparr>"
    by blast
  from b validatePhotoFormat_classification [of jpeg_data]
  have "validatePhotoFormat jpeg_data =
        (let f = toLowerCase ''jpeg''; bytes = Buffer_from_base64 ''/9j/4AAQSkZJRg=='' in
         if f \<notin> {''jpeg'', ''jpg'', ''png'', ''gif''} then
           \<lparr> valid = False, format = None,
             val_error = Some (''Unsupported image format: '' @ f
                               @ ''. Allowed formats: jpeg, jpg, png, gif'') \<rparr>
         else if ''/9j/4AAQSkZJRg=='' \<noteq> [] \<and> \<not> is_base64_text ''/9j/4AAQSkZJRg=='' then
           \<lparr> valid = False, format = None, val_error = Some ''Invalid base64 encoding'' \<rparr>
         else if 5 * 1024 * 1024 < length bytes then
           \<lparr> valid = False, format = None,
             val_error = Some ''File size exceeds maximum limit of 5MB'' \<rparr>
         else if length bytes < 8 \<or> \<not> has_signature f bytes then
           \<lparr> valid = False, format = None,
             val_error = Some ''File does not appear to be a valid image'' \<rparr>
         else \<lparr> valid = True, format = Some f, val_error = None \<rparr>)"
    by blast
  then have d: "validatePhotoFormat jpeg_data =
      \<lparr> valid = True, format = Some ''jpeg'', val_error = None \<rparr>"
    by (simp add: lower_jpeg decode_jpeg_data b64 sig len Let_def)
  from a b c d show ?thesis by blast
qed

text \<open>
  The size check can fire: a payload of \<open>n\<close> base64 characters decodes to
  \<open>n * 3 div 4\<close> bytes.
\<close>

lemma length_decode_sextets: "length (decode_sextets xs) = length xs * 3 div 4"
  by (induction xs rule: decode_sextets.induct) simp_all

lemma A_is_base64: "is_base64_char CHR ''A''"
  by (simp add: is_base64_char_def base64_alphabet_def upper_letters_def)

lemma length_decode_replicate:
  "length (Buffer_from_base64 (replicate n CHR ''A'')) = n * 3 div 4"
proof -
  have "takeWhile is_base64_char (replicate n CHR ''A'') = replicate n CHR ''A''"
    by (simp add: takeWhile_eq_all_conv A_is_base64)
  then show ?thesis
    by (simp add: Buffer_from_base64_def length_decode_sextets)
qed

lemma validatePhotoFormat_oversize:
  assumes "5 * 1024 * 1024 < n * 3 div 4"
  shows "validatePhotoFormat (''data:image/jpeg;base64,'' @ replicate n CHR ''A'') =
           \<lparr> valid = False, format = None,
             val_error = Some ''File size exceeds maximum limit of 5MB'' \<rparr>"
proof -
  let ?p = "replicate n CHR ''A''"
  have "is_data_url (''data:image/jpeg;base64,'' @ ?p) ''jpeg'' ?p"
    by (simp add: is_data_url_def is_word_def upper_letters_def lower_letters_def)
  then have m: "match_data_url (''data:image/jpeg;base64,'' @ ?p) = Some (''jpeg'', ?p)"
    by (simp only: match_data_url_iff)
  have "dropWhile is_base64_char ?p = []"
    by (simp add: A_is_base64)
  then have t: "test_base64 ?p"
    by (simp add: test_base64_def)
  from assms have big: "MAX_FILE_SIZE < length (Buffer_from_base64 ?p)"
    by (simp add: MAX_FILE_SIZE_def length_decode_replicate)
  show ?thesis
    unfolding validatePhotoFormat_def m option.case prod.case Let_def lower_jpeg
    using t big show_nat_5 by (simp add: ALLOWED_FORMATS_def)
qed

subsection \<open>getPhoto, deletePhoto, uploadPhoto\<close>

lemma includes_slash: "includes_str n ''/'' = (CHR ''/'' \<in> set n)"
  by (induction n) (auto simp: includes_str_def sublist_Cons_right)

lemma includes_dotdot_self: "includes_str ''..'' ''..''"
  by (simp add: includes_str_def)

lemma split_on_absent: "c \<notin> set xs \<Longrightarrow> split_on c acc xs = [rev acc @ xs]"
  by (induction xs arbitrary: acc) auto

text \<open>
  What \<open>join(UPLOAD_DIR, fileName)\<close> is for a file name that passes the check of \<open>getPhoto\<close>
  and \<open>deletePhoto\<close>: the upload directory itself for the names \<open>''\<close> and \<open>.\<close>, a path
  directly inside it otherwise.
\<close>

lemma path_join_valid:
  assumes "\<not> invalid_filename n"
  shows "path_join UPLOAD_DIR n =
           \<lparr> parts = (if n = [] \<or> n = ''.'' then [''uploads'', ''photos'']
                      else [''uploads'', ''photos'', n]),
             trailing_slash = False \<rparr>"
proof (cases "n = []")
  case True
  then show ?thesis
    by (simp add: path_join_def normalize_path_def UPLOAD_DIR_def)
next
  case False
  from assms have slash: "CHR ''/'' \<notin> set n"
    by (simp add: invalid_filename_def includes_slash)
  from assms have dots: "n \<noteq> ''..''"
    using includes_dotdot_self by (auto simp: invalid_filename_def)
  from slash have split: "split_on CHR ''/'' [] n = [n]"
    by (simp add: split_on_absent)
  from False have "last n \<in> set n"
    by (rule last_in_set)
  with slash have "last n \<noteq> CHR ''/''"
    by (metis (no_types))
  with False split dots show ?thesis
    by (simp add: path_join_def normalize_path_def UPLOAD_DIR_def)
qed

lemma bad1: "invalid_filename ''../../../etc/passwd''"
  by (simp add: invalid_filename_def includes_str_def sublist_Cons_right)

lemma bad2: "invalid_filename ''folder/file.jpg''"
  by (simp add: invalid_filename_def includes_slash)

lemma bad3: "invalid_filename (''folder'' @ [CHR 0x5C] @ ''file.jpg'')"
  by (simp add: invalid_filename_def includes_str_def sublist_Cons_right)

lemma good1: "\<not> invalid_filename ''non_existent_photo.jpg''"
  by (simp add: invalid_filename_def includes_str_def sublist_Cons_right)

lemma good2: "\<not> invalid_filename ''1700000000000_test_photo.jpeg''"
  by (simp add: invalid_filename_def includes_str_def sublist_Cons_right)

lemma show_now: "show_int 1700000000000 = ''1700000000000''"
  by (simp add: show_int_def show_nat.simps digit_def)

lemma ensureUploadDir_fs0:
  "ensureUploadDir fs0 =
     Inr \<lparr> nodes = (\<lambda>p. None)([''uploads''] \<mapsto> Directory,
                                [''uploads'', ''photos''] \<mapsto> Directory) \<rparr>"
  by (simp add: ensureUploadDir_def existsSync_def is_directory_def normalize_path_def
      UPLOAD_DIR_def fs0_def)

lemma ensureUploadDir_fs1: "ensureUploadDir fs1 = Inr fs1"
  by (simp add: ensureUploadDir_def existsSync_def is_directory_def normalize_path_def
      UPLOAD_DIR_def fs1_def)

lemma upload_fs0:
  "uploadPhoto fs0 1700000000000 testInput =
     (Inr \<lparr> url = ''/uploads/photos/1700000000000_test_photo.jpeg'',
            fileName = ''1700000000000_test_photo.jpeg'' \<rparr>, fs1)"
  by (simp add: uploadPhoto_def testInput_def validate_jpeg_data Let_def ensureUploadDir_fs0
      replace_data_url_prefix_def match_jpeg_data decode_jpeg_data
      MAX_FILE_SIZE_def or_default_def show_now path_join_valid [OF good2]
      writeFile_def is_directory_def fs1_def)
     (simp add: jpeg_bytes_def)

lemma upload_fs1:
  "uploadPhoto fs1 1700000000000 testInput =
     (Inr \<lparr> url = ''/uploads/photos/1700000000000_test_photo.jpeg'',
            fileName = ''1700000000000_test_photo.jpeg'' \<rparr>, fs1)"
  by (simp add: uploadPhoto_def testInput_def validate_jpeg_data Let_def ensureUploadDir_fs1
      replace_data_url_prefix_def match_jpeg_data decode_jpeg_data
      MAX_FILE_SIZE_def or_default_def show_now path_join_valid [OF good2]
      writeFile_def is_directory_def)
     (simp add: fs1_def jpeg_bytes_def)

lemma get_fs1: "getPhoto fs1 ''1700000000000_test_photo.jpeg'' = Some jpeg_bytes"
  by (simp add: getPhoto_def getPhoto_try_def good2 path_join_valid [OF good2]
      existsSync_def readFile_def is_directory_def fs1_def Let_def)

text \<open>
  C7. For a file name that contains \<open>..\<close>, \<open>/\<close> or a backslash, \<open>getPhoto\<close> returns
  \<open>null\<close> (it cannot raise: its result type has no error branch) and \<open>deletePhoto\<close> fails
  with "Invalid filename", leaving the store as it was. For any other file name that names
  no stored file, \<open>getPhoto\<close> returns \<open>null\<close> and \<open>deletePhoto\<close> returns normally, the store
  unchanged.
\<close>

theorem photo_filename_handling:
  "(invalid_filename n \<longrightarrow>
      getPhoto s n = None \<and> deletePhoto s n = (Inl (Error ''Invalid filename''), s))
   \<and> (\<not> invalid_filename n \<and> files s n = None \<longrightarrow>
      getPhoto s n = None \<and> deletePhoto s n = (Inr (), s))"
proof (intro conjI impI)
  assume "invalid_filename n"
  then show "getPhoto s n = None" "deletePhoto s n = (Inl (Error ''Invalid filename''), s)"
    by (simp_all add: getPhoto_def getPhoto_try_def deletePhoto_def)
next
  assume a: "\<not> invalid_filename n \<and> files s n = None"
  then have no_file: "\<forall>b. nodes s (parts (path_join UPLOAD_DIR n)) \<noteq> Some (Regular b)"
    by (auto simp: files_def split: option.splits node.splits)
  then have r: "readFile s (path_join UPLOAD_DIR n) = Inl FileSystemError"
    by (auto simp: readFile_def split: option.splits node.splits)
  from no_file have u: "unlink s (path_join UPLOAD_DIR n) = Inl FileSystemError"
    by (auto simp: unlink_def split: option.splits node.splits)
  from a r show "getPhoto s n = None"
    by (simp add: getPhoto_def getPhoto_try_def Let_def)
  from a u show "deletePhoto s n = (Inr (), s)"
    by (simp add: deletePhoto_def Let_def)
qed

theorem photo_filename_handling_witness:
  "invalid_filename ''../../../etc/passwd''
   \<and> getPhoto fs1 ''../../../etc/passwd'' = None
   \<and> deletePhoto fs1 ''../../../etc/passwd'' = (Inl (Error ''Invalid filename''), fs1)
   \<and> \<not> invalid_filename ''non_existent_photo.jpg''
   \<and> files fs1 ''non_existent_photo.jpg'' = None
   \<and> getPhoto fs1 ''non_existent_photo.jpg'' = None
   \<and> deletePhoto fs1 ''non_existent_photo.jpg'' = (Inr (), fs1)"
proof -
  have "files fs1 ''non_existent_photo.jpg'' = None"
    by (simp add: files_def path_join_valid [OF good1] fs1_def)
  with bad1 good1
    photo_filename_handling [of "''../../../etc/passwd''" fs1]
    photo_filename_handling [of "''non_existent_photo.jpg''" fs1]
  show ?thesis by blast
qed

text \<open>
  A stored file is read back, and deleting it removes it: the second case of C7 is not
  the only one that \<open>getPhoto\<close> and \<open>deletePhoto\<close> have.
\<close>

lemma getPhoto_stored:
  assumes "\<not> invalid_filename n" and "files s n = Some b"
  shows "getPhoto s n = Some b"
proof -
  from assms(2) have node: "nodes s (parts (path_join UPLOAD_DIR n)) = Some (Regular b)"
    by (auto simp: files_def split: option.splits node.splits)
  from assms(1) have "\<not> trailing_slash (path_join UPLOAD_DIR n)"
    by (simp add: path_join_valid)
  moreover from assms(1) have "\<not> list_all (\<lambda>c. c = ''..'') (parts (path_join UPLOAD_DIR n))"
    by (simp add: path_join_valid)
  ultimately show ?thesis
    using assms(1) node
    by (simp add: getPhoto_def getPhoto_try_def existsSync_def readFile_def is_directory_def
        Let_def)
qed

text \<open>
  The generated name depends on the clock reading and the input only, not on the store.
\<close>

lemma uploadPhoto_fileName:
  assumes "uploadPhoto s now input = (Inr r, s')"
  shows "fileName r = show_int now @ ''_'' @ file_name input @ ''.''
           @ or_default (format (validatePhotoFormat (file_data input))) ''jpg''"
  using assms
  by (auto simp: uploadPhoto_def Let_def split: if_splits sum.splits)

text \<open>
  C8. Two uploads of the same input that read the same millisecond from the clock both
  succeed and return the same \<open>fileName\<close>; the second overwrites the file of the first.
\<close>

theorem uploadPhoto_same_millisecond_same_name:
  "uploadPhoto fs0 1700000000000 testInput =
     (Inr \<lparr> url = ''/uploads/photos/1700000000000_test_photo.jpeg'',
            fileName = ''1700000000000_test_photo.jpeg'' \<rparr>, fs1)
   \<and> uploadPhoto fs1 1700000000000 testInput =
     (Inr \<lparr> url = ''/uploads/photos/1700000000000_test_photo.jpeg'',
            fileName = ''1700000000000_test_photo.jpeg'' \<rparr>, fs1)"
  using upload_fs0 upload_fs1 by simp

subsection \<open>generateViolationMessage\<close>

text \<open>
  A marker without a newline occurs in a text around a newline only if it occurs on one
  side of it.
\<close>

lemma sublist_split_at:
  assumes "c \<notin> set p"
  shows "sublist p (xs @ c # ys) = (sublist p xs \<or> sublist p ys)"
proof (cases "p = []")
  case True
  then show ?thesis by simp
next
  case False
  have "\<not> prefix p (c # ys)"
    using assms False by (cases p) auto
  moreover have "\<And>p1 p2. p = p1 @ p2 \<Longrightarrow> suffix p1 xs \<Longrightarrow> prefix p2 (c # ys) \<Longrightarrow> sublist p xs"
  proof -
    fix p1 p2
    assume p: "p = p1 @ p2" and s: "suffix p1 xs" and q: "prefix p2 (c # ys)"
    have "p2 = []"
    proof (cases p2)
      case Nil
      then show ?thesis .
    next
      case (Cons a as)
      with q have "a = c" by simp
      with Cons p assms show ?thesis by simp
    qed
    with p s show "sublist p xs" by (simp add: suffix_imp_sublist)
  qed
  ultimately show ?thesis
    by (auto simp: sublist_append sublist_Cons_right)
qed

lemma newline_not_in_markers:
  "CHR 0x0A \<notin> set ''Keterangan:''" "CHR 0x0A \<notin> set ''Bukti foto:''"
  by simp_all

lemmas split_K = sublist_split_at [OF newline_not_in_markers(1)]
lemmas split_B = sublist_split_at [OF newline_not_in_markers(2)]

lemma message_without_description:
  assumes "\<not> truthy (description v)"
  shows "includes_str (violation_message df tf v st) ''Keterangan:'' =
           (\<exists>t \<in> set (interpolated df tf v st @ [optional_text (photo_url v)]).
              includes_str t ''Keterangan:'')"
  using assms
  by (cases "photo_url v")
     (simp_all add: violation_message_def includes_str_def interpolated_def optional_text_def
        truthy_def Let_def split_K sublist_Cons_right)

lemma message_without_photo:
  assumes "\<not> truthy (photo_url v)"
  shows "includes_str (violation_message df tf v st) ''Bukti foto:'' =
           (\<exists>t \<in> set (interpolated df tf v st @ [optional_text (description v)]).
              includes_str t ''Bukti foto:'')"
  using assms
  by (cases "description v")
     (simp_all add: violation_message_def includes_str_def interpolated_def optional_text_def
        truthy_def Let_def split_B sublist_Cons_right)

lemma includes_left: "includes_str x p \<Longrightarrow> includes_str (x @ y) p"
  unfolding includes_str_def by (metis sublist_append)

lemma includes_right: "includes_str y p \<Longrightarrow> includes_str (x @ y) p"
  unfolding includes_str_def by (metis sublist_append)

lemma includes_after_newline: "includes_str (CHR 0x0A # p) p"
  by (simp add: includes_str_def sublist_Cons_right)

lemma message_with_description:
  assumes "truthy (description v)"
  shows "includes_str (violation_message df tf v st) (''Keterangan: '' @ the (description v))"
proof -
  have base: "includes_str (''\<newline>Keterangan: '' @ the (description v))
                (''Keterangan: '' @ the (description v))"
    using includes_after_newline [of "''Keterangan: '' @ the (description v)"] by simp
  show ?thesis
  proof (cases "truthy (photo_url v)")
    case True
    show ?thesis
      unfolding violation_message_def Let_def if_P [OF assms] if_P [OF True]
      by (rule includes_left, rule includes_left, rule includes_right, rule base)
  next
    case False
    show ?thesis
      unfolding violation_message_def Let_def if_P [OF assms] if_not_P [OF False]
      by (rule includes_left, rule includes_right, rule base)
  qed
qed

lemma message_with_photo:
  assumes "truthy (photo_url v)"
  shows "includes_str (violation_message df tf v st) (''Bukti foto: '' @ the (photo_url v))"
proof -
  have "includes_str (''\<newline>Bukti foto: '' @ the (photo_url v))
          (''Bukti foto: '' @ the (photo_url v))"
    using includes_after_newline [of "''Bukti foto: '' @ the (photo_url v)"] by simp
  then have base: "includes_str (''\<newline>\<newline>Bukti foto: '' @ the (photo_url v))
          (''Bukti foto: '' @ the (photo_url v))"
    using includes_right [of _ _ "[CHR 0x0A]"] by fastforce
  show ?thesis
    unfolding violation_message_def Let_def if_P [OF assms]
    by (rule includes_left, rule includes_right, rule base)
qed

lemma includes_prefix_part:
  "includes_str m (a @ b) \<Longrightarrow> includes_str m a"
  unfolding includes_str_def
  by (meson sublist_append_rightI sublist_order.order_trans)

lemma generateViolationMessage_joined:
  assumes pk: "pk_violations s" and fk: "fk_student s" and v: "v \<in> set (violationsTable s)"
  shows "\<exists>st \<in> set (studentsTable s). st_id st = student_id v
           \<and> generateViolationMessage df tf s (v_id v) = Inr (violation_message df tf v st)"
proof -
  from pk v have one: "filter (\<lambda>x. v_id x = v_id v) (violationsTable s) = [v]"
    by (simp add: filter_key_unique pk_violations_def)
  from fk v have "student_id v \<in> st_id ` set (studentsTable s)"
    by (simp add: fk_student_def list_all_iff)
  then have "filter (\<lambda>st. student_id v = st_id st) (studentsTable s) \<noteq> []"
    by (auto simp: filter_empty_conv)
  then obtain st rest where
    f: "filter (\<lambda>st. student_id v = st_id st) (studentsTable s) = st # rest"
    by (cases "filter (\<lambda>st. student_id v = st_id st) (studentsTable s)") auto
  then have "st \<in> set (filter (\<lambda>st. student_id v = st_id st) (studentsTable s))"
    by simp
  then have st: "st \<in> set (studentsTable s)" "st_id st = student_id v"
    by auto
  have "generateViolationMessage df tf s (v_id v) = Inr (violation_message df tf v st)"
    by (simp add: generateViolationMessage_def one f)
  with st show ?thesis by blast
qed

lemma pk_db3: "pk_violations db3"
  by (simp add: pk_violations_def db3_def db0_def v1_def v3_def v4_def)

lemma fk_db3: "fk_student db3"
  by (simp add: fk_student_def db3_def db0_def v1_def v3_def v4_def)

lemma message_v3_def:
  "generateViolationMessage df0 tf0 db3 3 =
     Inr (violation_message df0 tf0 v3 st1)"
  by (simp add: generateViolationMessage_def db3_def db0_def v1_def v3_def v4_def st1_def)

text \<open>
  C5, as stated, fails: the other fields are interpolated verbatim, so a violation with no
  description whose location is "Keterangan: gerbang" yields a message that contains
  "Keterangan:".
\<close>

theorem generateViolationMessage_marker_counterexample:
  "v3 \<in> set (violationsTable db3) \<and> description v3 = None
   \<and> generateViolationMessage df0 tf0 db3 3 =
        Inr (violation_message df0 tf0 v3 st1)
   \<and> includes_str (violation_message df0 tf0 v3 st1) ''Keterangan:''"
proof -
  have "includes_str (violation_message df0 tf0 v3 st1) ''Keterangan:''"
    by (simp add: violation_message_def v3_def st1_def df0_def tf0_def truthy_def Let_def
        includes_str_def sublist_Cons_right)
  moreover have "v3 \<in> set (violationsTable db3)" "description v3 = None"
    by (simp_all add: db3_def v3_def)
  ultimately show ?thesis using message_v3_def by simp
qed

lemma students_db3: "studentsTable db3 = [st1]"
  by (simp add: db3_def db0_def st1_def)

lemma clean_v1:
  "\<forall>t \<in> set (interpolated df0 tf0 v1 st1 @ [optional_text (photo_url v1)]).
     \<not> includes_str t ''Keterangan:''"
  "\<forall>t \<in> set (interpolated df0 tf0 v1 st1 @ [optional_text (description v1)]).
     \<not> includes_str t ''Bukti foto:''"
  by (simp_all add: interpolated_def optional_text_def v1_def st1_def df0_def tf0_def
      includes_str_def sublist_Cons_right)

text \<open>
  C5, amended. For every stored violation (violation ids a primary key, the student
  reference a foreign key) \<open>generateViolationMessage\<close> returns a message such that: when the
  description is non-null and non-empty the message contains "Keterangan:" followed by the
  literal description; when the photo URL is non-null and non-empty it contains
  "Bukti foto:" followed by the literal URL; and, provided none of the other interpolated
  texts (student name, class, NISN, formatted date and time, violation type, location, and
  the other optional text) contains the marker itself, the message contains "Keterangan:"
  exactly when the description is non-null and non-empty, and "Bukti foto:" exactly when
  the photo URL is.
\<close>

theorem generateViolationMessage_optional_lines:
  assumes "pk_violations s" and "fk_student s" and "v \<in> set (violationsTable s)"
  shows "\<exists>st m. st \<in> set (studentsTable s) \<and> st_id st = student_id v
           \<and> generateViolationMessage df tf s (v_id v) = Inr m
           \<and> (truthy (description v) \<longrightarrow>
                  includes_str m ''Keterangan:''
                \<and> includes_str m (''Keterangan: '' @ the (description v)))
           \<and> (truthy (photo_url v) \<longrightarrow>
                  includes_str m ''Bukti foto:''
                \<and> includes_str m (''Bukti foto: '' @ the (photo_url v)))
           \<and> ((\<forall>t \<in> set (interpolated df tf v st @ [optional_text (photo_url v)]).
                   \<not> includes_str t ''Keterangan:'') \<longrightarrow>
                includes_str m ''Keterangan:'' = truthy (description v))
           \<and> ((\<forall>t \<in> set (interpolated df tf v st @ [optional_text (description v)]).
                   \<not> includes_str t ''Bukti foto:'') \<longrightarrow>
                includes_str m ''Bukti foto:'' = truthy (photo_url v))"
proof -
  from assms obtain st where st: "st \<in> set (studentsTable s)" "st_id st = student_id v"
    and run: "generateViolationMessage df tf s (v_id v) = Inr (violation_message df tf v st)"
    using generateViolationMessage_joined by blast
  let ?m = "violation_message df tf v st"
  have d: "truthy (description v) \<longrightarrow>
      includes_str ?m ''Keterangan:'' \<and> includes_str ?m (''Keterangan: '' @ the (description v))"
  proof
    assume t: "truthy (description v)"
    then have full: "includes_str ?m (''Keterangan: '' @ the (description v))"
      by (rule message_with_description)
    then have "includes_str ?m (''Keterangan:'' @ ('' '' @ the (description v)))" by simp
    then have "includes_str ?m ''Keterangan:''" by (rule includes_prefix_part)
    with full show "includes_str ?m ''Keterangan:''
        \<and> includes_str ?m (''Keterangan: '' @ the (description v))" by simp
  qed
  have u: "truthy (photo_url v) \<longrightarrow>
      includes_str ?m ''Bukti foto:'' \<and> includes_str ?m (''Bukti foto: '' @ the (photo_url v))"
  proof
    assume t: "truthy (photo_url v)"
    then have full: "includes_str ?m (''Bukti foto: '' @ the (photo_url v))"
      by (rule message_with_photo)
    then have "includes_str ?m (''Bukti foto:'' @ ('' '' @ the (photo_url v)))" by simp
    then have "includes_str ?m ''Bukti foto:''" by (rule includes_prefix_part)
    with full show "includes_str ?m ''Bukti foto:''
        \<and> includes_str ?m (''Bukti foto: '' @ the (photo_url v))" by simp
  qed
  have k: "(\<forall>t \<in> set (interpolated df tf v st @ [optional_text (photo_url v)]).
               \<not> includes_str t ''Keterangan:'') \<longrightarrow>
            includes_str ?m ''Keterangan:'' = truthy (description v)"
  proof (cases "truthy (description v)")
    case True
    with d show ?thesis by simp
  next
    case False
    then show ?thesis using message_without_description [OF False, of df tf st] by blast
  qed
  have b: "(\<forall>t \<in> set (interpolated df tf v st @ [optional_text (description v)]).
               \<not> includes_str t ''Bukti foto:'') \<longrightarrow>
            includes_str ?m ''Bukti foto:'' = truthy (photo_url v)"
  proof (cases "truthy (photo_url v)")
    case True
    with u show ?thesis by simp
  next
    case False
    then show ?thesis using message_without_photo [OF False, of df tf st] by blast
  qed
  from st run d u k b show ?thesis by blast
qed

theorem generateViolationMessage_optional_lines_witness:
  "pk_violations db3 \<and> fk_student db3
   \<and> v4 \<in> set (violationsTable db3) \<and> truthy (description v4) \<and> truthy (photo_url v4)
   \<and> generateViolationMessage df0 tf0 db3 (v_id v4) = Inr (violation_message df0 tf0 v4 st1)
   \<and> includes_str (violation_message df0 tf0 v4 st1) ''Keterangan: Jam ketiga''
   \<and> includes_str (violation_message df0 tf0 v4 st1) ''Bukti foto: /uploads/photos/1_a.jpeg''
   \<and> v1 \<in> set (violationsTable db3) \<and> \<not> truthy (description v1) \<and> \<not> truthy (photo_url v1)
   \<and> generateViolationMessage df0 tf0 db3 (v_id v1) = Inr (violation_message df0 tf0 v1 st1)
   \<and> \<not> includes_str (violation_message df0 tf0 v1 st1) ''Keterangan:''
   \<and> \<not> includes_str (violation_message df0 tf0 v1 st1) ''Bukti foto:''"
proof -
  have in4: "v4 \<in> set (violationsTable db3)" and in1: "v1 \<in> set (violationsTable db3)"
    by (simp_all add: db3_def)
  have t4: "truthy (description v4)" "truthy (photo_url v4)"
    "the (description v4) = ''Jam ketiga''" "the (photo_url v4) = ''/uploads/photos/1_a.jpeg''"
    by (simp_all add: truthy_def v4_def)
  have t1: "\<not> truthy (description v1)" "\<not> truthy (photo_url v1)"
    by (simp_all add: truthy_def v1_def)
  from generateViolationMessage_optional_lines [OF pk_db3 fk_db3 in4, of df0 tf0]
  obtain st m where a: "st \<in> set (studentsTable db3)"
    "generateViolationMessage df0 tf0 db3 (v_id v4) = Inr m"
    "truthy (description v4) \<longrightarrow> includes_str m ''Keterangan:''
       \<and> includes_str m (''Keterangan: '' @ the (description v4))"
    "truthy (photo_url v4) \<longrightarrow> includes_str m ''Bukti foto:''
       \<and> includes_str m (''Bukti foto: '' @ the (photo_url v4))"
    by blast
  from a(1) have "st = st1" by (simp add: students_db3)
  have run4: "generateViolationMessage df0 tf0 db3 (v_id v4) = Inr (violation_message df0 tf0 v4 st1)"
    by (simp add: generateViolationMessage_def db3_def db0_def v1_def v3_def v4_def st1_def)
  with a(2) have m4: "m = violation_message df0 tf0 v4 st1" by simp
  from a(3,4) t4 m4
  have c4: "includes_str (violation_message df0 tf0 v4 st1) ''Keterangan: Jam ketiga''"
    "includes_str (violation_message df0 tf0 v4 st1) ''Bukti foto: /uploads/photos/1_a.jpeg''"
    by simp_all
  from generateViolationMessage_optional_lines [OF pk_db3 fk_db3 in1, of df0 tf0]
  obtain st' m' where b: "st' \<in> set (studentsTable db3)"
    "generateViolationMessage df0 tf0 db3 (v_id v1) = Inr m'"
    "(\<forall>t \<in> set (interpolated df0 tf0 v1 st' @ [optional_text (photo_url v1)]).
         \<not> includes_str t ''Keterangan:'') \<longrightarrow>
       includes_str m' ''Keterangan:'' = truthy (description v1)"
    "(\<forall>t \<in> set (interpolated df0 tf0 v1 st' @ [optional_text (description v1)]).
         \<not> includes_str t ''Bukti foto:'') \<longrightarrow>
       includes_str m' ''Bukti foto:'' = truthy (photo_url v1)"
    by blast
  from b(1) have st': "st' = st1" by (simp add: students_db3)
  have run1: "generateViolationMessage df0 tf0 db3 (v_id v1) = Inr (violation_message df0 tf0 v1 st1)"
    by (simp add: generateViolationMessage_def db3_def db0_def v1_def v3_def v4_def st1_def)
  with b(2) have m1: "m' = violation_message df0 tf0 v1 st1" by simp
  from b(3,4) clean_v1 t1 have c1:
    "\<not> includes_str (violation_message df0 tf0 v1 st1) ''Keterangan:''"
    "\<not> includes_str (violation_message df0 tf0 v1 st1) ''Bukti foto:''"
    unfolding st' m1 by blast+
  from pk_db3 fk_db3 in4 in1 t4(1,2) t1 run4 run1 c4 c1 show ?thesis by blast
qed

end
